theory Spec2Isabelle
  imports Complex_Main
begin

section \<open>Symbol resolution (main.py)\<close>

text \<open>
  \<^verbatim>\<open>SIMBOLOS_MAPPING\<close> is a dictionary literal with pairwise distinct keys; it is kept as
  an association list in the order of the source and read with \<open>map_of\<close>.
\<close>

definition SIMBOLOS_MAPPING :: "(string \<times> string) list" where
  "SIMBOLOS_MAPPING =
    [(''GGAL'', ''GGAL.BA''),
     (''PAMP'', ''PAMP.BA''),
     (''YPF'', ''YPFD.BA''),
     (''YPFD'', ''YPFD.BA''),
     (''TXAR'', ''TXAR.BA''),
     (''BYMA'', ''BYMA.BA''),
     (''BBAR'', ''BBAR.BA''),
     (''CEPU'', ''CEPU.BA''),
     (''TRAN'', ''TRAN.BA''),
     (''TGNO4'', ''TGNO4.BA''),
     (''TGSU2'', ''TGSU2.BA''),
     (''LOMA'', ''LOMA.BA''),
     (''BMA'', ''BMA.BA''),
     (''SUPV'', ''SUPV.BA''),
     (''CRES'', ''CRES.BA''),
     (''ALUA'', ''ALUA.BA''),
     (''COME'', ''COME.BA''),
     (''MIRG'', ''MIRG.BA''),
     (''HARG'', ''HARG.BA''),
     (''VALO'', ''VALO.BA''),
     (''GGAL.ADR'', ''GGAL''),
     (''YPF.ADR'', ''YPF''),
     (''BMA.ADR'', ''BMA''),
     (''SUPV.ADR'', ''SUPV''),
     (''LOMA.ADR'', ''LOMA''),
     (''BBAR.ADR'', ''BBAR''),
     (''PAM.ADR'', ''PAM''),
     (''TEO.ADR'', ''TEO''),
     (''TGS.ADR'', ''TGS''),
     (''ARGT'', ''ARGT''),
     (''MERVAL'', ''^MERV'')]"

text \<open>Python's \<^verbatim>\<open>str.endswith\<close> and \<^verbatim>\<open>str.startswith\<close> on a literal suffix or prefix.\<close>

definition endswith :: "string \<Rightarrow> string \<Rightarrow> bool" where
  "endswith s suf = (length suf \<le> length s \<and> drop (length s - length suf) s = suf)"

definition startswith :: "string \<Rightarrow> string \<Rightarrow> bool" where
  "startswith s pre = (take (length pre) s = pre)"

text \<open>
  \<^verbatim>\<open>ClienteYFinanceMCP._get_yahoo_symbol\<close>: the table entry when there is one, else the
  symbol with \<^verbatim>\<open>.BA\<close> appended unless it already ends in \<^verbatim>\<open>.BA\<close> or \<^verbatim>\<open>.ADR\<close>.
\<close>

definition get_yahoo_symbol :: "string \<Rightarrow> string" where
  "get_yahoo_symbol simbolo =
    (case map_of SIMBOLOS_MAPPING simbolo of
       Some y \<Rightarrow> y
     | None \<Rightarrow>
         if \<not> endswith simbolo ''.BA'' \<and> \<not> endswith simbolo ''.ADR''
         then simbolo @ ''.BA''
         else simbolo)"

text \<open>
  The first lines of \<^verbatim>\<open>obtener_ultima_cotizacion\<close>: resolution followed by the inline
  adjustment for \<^verbatim>\<open>YPF\<close>.
\<close>

definition simbolo_yahoo_ultima :: "string \<Rightarrow> string" where
  "simbolo_yahoo_ultima simbolo =
    (let simbolo_yahoo = get_yahoo_symbol simbolo
     in if simbolo = ''YPF'' \<and> simbolo_yahoo = ''YPF.BA'' then ''YPFD.BA'' else simbolo_yahoo)"

section \<open>Bars and the normalizer (main.py)\<close>

text \<open>
  A cell of the provider's table is a number or missing (\<^verbatim>\<open>pd.isna\<close>). A row carries its
  index (the instant, in seconds) and the four price columns; the \<^verbatim>\<open>Volume\<close> column may
  be absent from the table altogether (\<open>None\<close>), which the source tests with
  \<^verbatim>\<open>'Volume' in row\<close>. A table is its list of rows in index order; \<^verbatim>\<open>df.empty\<close> is the
  empty list.
\<close>

datatype cell = NaN | Num real

fun isna :: "cell \<Rightarrow> bool" where
  "isna NaN = True"
| "isna (Num v) = False"

fun float_of :: "cell \<Rightarrow> real" where
  "float_of (Num v) = v"
| "float_of NaN = 0"

record fila =
  indice :: int
  col_Open :: cell
  col_High :: cell
  col_Low :: cell
  col_Close :: cell
  col_Volume :: "cell option"

type_synonym dataframe = "fila list"

record cotizacion =
  simbolo :: string
  timestamp :: int
  apertura :: real
  maximo :: real
  minimo :: real
  cierre :: real
  volumen_nominal :: real
  volumen_monto :: real
  cantidad_operaciones :: int
  ajustado :: bool

definition fila_incompleta :: "fila \<Rightarrow> bool" where
  "fila_incompleta row =
    (isna (col_Open row) \<or> isna (col_High row) \<or> isna (col_Low row) \<or> isna (col_Close row))"

text \<open>
  The bar built from a complete row. \<open>float_of\<close> is only applied to cells that are not
  missing; \<^verbatim>\<open>volumen_monto\<close> and \<^verbatim>\<open>cantidad_operaciones\<close> take the dataclass defaults.
\<close>

definition cotizacion_de_fila :: "string \<Rightarrow> fila \<Rightarrow> cotizacion" where
  "cotizacion_de_fila sim row =
    \<lparr> simbolo = sim,
      timestamp = indice row,
      apertura = float_of (col_Open row),
      maximo = float_of (col_High row),
      minimo = float_of (col_Low row),
      cierre = float_of (col_Close row),
      volumen_nominal =
        (case col_Volume row of
           Some v \<Rightarrow> if \<not> isna v then float_of v else 0
         | None \<Rightarrow> 0),
      volumen_monto = 0,
      cantidad_operaciones = 0,
      ajustado = True \<rparr>"

text \<open>The loop of the normalizer, with the list \<^verbatim>\<open>cotizaciones\<close> it appends to.\<close>

fun convert_loop :: "string \<Rightarrow> fila list \<Rightarrow> cotizacion list \<Rightarrow> cotizacion list" where
  "convert_loop sim [] cotizaciones = cotizaciones"
| "convert_loop sim (row # rest) cotizaciones =
    (if fila_incompleta row then convert_loop sim rest cotizaciones
     else convert_loop sim rest (cotizaciones @ [cotizacion_de_fila sim row]))"

definition convert_yf_history_to_cotizaciones :: "dataframe \<Rightarrow> string \<Rightarrow> cotizacion list" where
  "convert_yf_history_to_cotizaciones df sim =
    (if df = [] then [] else convert_loop sim df [])"

section \<open>Latest bar and batch retrieval (main.py)\<close>

text \<open>
  The provider's \<^verbatim>\<open>Ticker(symbol).history(period=...)\<close> for the three periods the client
  asks for: it raises (\<open>Inl\<close>, with the text of the exception) or returns a table. The
  operations return, next to their result, the list of provider calls they made.
\<close>

datatype periodo = P_1d | P_5d | P_1mo

type_synonym history_period = "string \<Rightarrow> periodo \<Rightarrow> string + dataframe"

type_synonym llamadas = "(string \<times> periodo) list"

text \<open>
  The tail of \<^verbatim>\<open>obtener_ultima_cotizacion\<close>, once a table has been retrieved: absent
  when the table is empty or no row survives the normalizer, else the bar at position 0.
\<close>

definition primera_cotizacion :: "dataframe \<Rightarrow> string \<Rightarrow> cotizacion option" where
  "primera_cotizacion df sim =
    (if df = [] then None
     else (case convert_yf_history_to_cotizaciones df sim of
             [] \<Rightarrow> None
           | c # _ \<Rightarrow> Some c))"

text \<open>The body of \<^verbatim>\<open>obtener_ultima_cotizacion\<close> after the provider symbol is fixed.\<close>

definition ultima_con_simbolo ::
  "history_period \<Rightarrow> string \<Rightarrow> string \<Rightarrow> cotizacion option \<times> llamadas" where
  "ultima_con_simbolo hist simbolo_yahoo sim =
    (case hist simbolo_yahoo P_1d of
       Inl ticker_error \<Rightarrow> (None, [(simbolo_yahoo, P_1d)])
     | Inr df \<Rightarrow>
         if df = [] then
           (case hist simbolo_yahoo P_5d of
              Inl ticker_error \<Rightarrow> (None, [(simbolo_yahoo, P_1d), (simbolo_yahoo, P_5d)])
            | Inr df5 \<Rightarrow>
                if df5 = [] then
                  (case hist simbolo_yahoo P_1mo of
                     Inl ticker_error \<Rightarrow>
                       (None, [(simbolo_yahoo, P_1d), (simbolo_yahoo, P_5d),
                               (simbolo_yahoo, P_1mo)])
                   | Inr dfm \<Rightarrow>
                       (primera_cotizacion dfm sim,
                        [(simbolo_yahoo, P_1d), (simbolo_yahoo, P_5d), (simbolo_yahoo, P_1mo)]))
                else (primera_cotizacion df5 sim,
                      [(simbolo_yahoo, P_1d), (simbolo_yahoo, P_5d)]))
         else (primera_cotizacion df sim, [(simbolo_yahoo, P_1d)]))"

definition obtener_ultima_cotizacion ::
  "history_period \<Rightarrow> string \<Rightarrow> cotizacion option \<times> llamadas" where
  "obtener_ultima_cotizacion hist sim = ultima_con_simbolo hist (simbolo_yahoo_ultima sim) sim"

text \<open>
  The same operation with the inline \<^verbatim>\<open>YPF\<close> adjustment removed, for comparison with the
  source's version.
\<close>

definition obtener_ultima_cotizacion_sin_ajuste ::
  "history_period \<Rightarrow> string \<Rightarrow> cotizacion option \<times> llamadas" where
  "obtener_ultima_cotizacion_sin_ajuste hist sim = ultima_con_simbolo hist (get_yahoo_symbol sim) sim"

text \<open>
  The windows as an ordered list tried in sequence: stop at the first window whose call
  raises or whose table has at least one row; an exhausted list leaves the empty table.
\<close>

fun escalar ::
  "history_period \<Rightarrow> string \<Rightarrow> periodo list \<Rightarrow> (string + dataframe) \<times> periodo list" where
  "escalar hist y [] = (Inr [], [])"
| "escalar hist y (p # ps) =
    (case hist y p of
       Inl e \<Rightarrow> (Inl e, [p])
     | Inr df \<Rightarrow>
         if df = [] then (fst (escalar hist y ps), p # snd (escalar hist y ps))
         else (Inr df, [p]))"

text \<open>
  \<^verbatim>\<open>obtener_cotizaciones_multiples\<close>: the loop over the symbols, with the dictionary
  \<^verbatim>\<open>resultado\<close> and the provider calls made so far. \<^verbatim>\<open>obtener_ultima_cotizacion\<close>
  catches every exception itself, so the loop's own handler has nothing to catch.
\<close>

fun multiples_loop ::
  "history_period \<Rightarrow> string list \<Rightarrow> (string \<rightharpoonup> cotizacion option) \<times> llamadas \<Rightarrow>
   (string \<rightharpoonup> cotizacion option) \<times> llamadas" where
  "multiples_loop hist [] acc = acc"
| "multiples_loop hist (sim # rest) (resultado, calls) =
    (let (ultima_cotizacion, c) = obtener_ultima_cotizacion hist sim
     in multiples_loop hist rest (resultado(sim \<mapsto> ultima_cotizacion), calls @ c))"

definition obtener_cotizaciones_multiples ::
  "history_period \<Rightarrow> string list \<Rightarrow> (string \<rightharpoonup> cotizacion option) \<times> llamadas" where
  "obtener_cotizaciones_multiples hist simbolos = multiples_loop hist simbolos (Map.empty, [])"

section \<open>Sample tables and providers\<close>

definition fila_completa :: "int \<Rightarrow> real \<Rightarrow> fila" where
  "fila_completa t p =
    \<lparr> indice = t, col_Open = Num p, col_High = Num p, col_Low = Num p, col_Close = Num p,
      col_Volume = Some (Num 1000) \<rparr>"

definition fila_sin_cierre :: "int \<Rightarrow> real \<Rightarrow> fila" where
  "fila_sin_cierre t p =
    \<lparr> indice = t, col_Open = Num p, col_High = Num p, col_Low = Num p, col_Close = NaN,
      col_Volume = Some (Num 1000) \<rparr>"

definition fila_sin_volumen :: "int \<Rightarrow> real \<Rightarrow> fila" where
  "fila_sin_volumen t p =
    \<lparr> indice = t, col_Open = Num p, col_High = Num p, col_Low = Num p, col_Close = Num p,
      col_Volume = None \<rparr>"

definition hist_1d_sin_cierre :: history_period where
  "hist_1d_sin_cierre y p =
    (case p of
       P_1d \<Rightarrow> Inr [fila_sin_cierre 0 100]
     | P_5d \<Rightarrow> Inr [fila_completa 0 100]
     | P_1mo \<Rightarrow> Inr [])"

definition hist_5d :: history_period where
  "hist_5d y p =
    (case p of
       P_1d \<Rightarrow> Inr []
     | P_5d \<Rightarrow> Inr [fila_completa 0 100]
     | P_1mo \<Rightarrow> Inl ''not attempted'')"

definition hist_A_falla :: history_period where
  "hist_A_falla y p =
    (if y = ''A.BA'' then Inl ''connection reset'' else Inr [fila_completa 0 100])"

section \<open>Historical retrieval (main.py)\<close>

datatype intervalo =
  MINUTO_1 | MINUTO_2 | MINUTO_5 | MINUTO_15 | MINUTO_30 | MINUTO_60 | MINUTO_90 |
  HORA_1 | DIA_1 | DIA_5 | SEMANA_1 | MES_1 | MES_3

fun intervalo_value :: "intervalo \<Rightarrow> string" where
  "intervalo_value MINUTO_1 = ''1m''"
| "intervalo_value MINUTO_2 = ''2m''"
| "intervalo_value MINUTO_5 = ''5m''"
| "intervalo_value MINUTO_15 = ''15m''"
| "intervalo_value MINUTO_30 = ''30m''"
| "intervalo_value MINUTO_60 = ''60m''"
| "intervalo_value MINUTO_90 = ''90m''"
| "intervalo_value HORA_1 = ''1h''"
| "intervalo_value DIA_1 = ''1d''"
| "intervalo_value DIA_5 = ''5d''"
| "intervalo_value SEMANA_1 = ''1wk''"
| "intervalo_value MES_1 = ''1mo''"
| "intervalo_value MES_3 = ''3mo''"

datatype estado_respuesta = OK | ERROR

datatype codigo_error = DATA_001 | DATA_002 | DATA_003 | PARAM_001

record solicitud_historico =
  sol_simbolo :: string
  sol_desde :: "int option"
  sol_hasta :: "int option"
  sol_intervalo :: intervalo
  sol_ajustado :: bool

record metadata_historico =
  md_simbolo :: string
  md_desde :: int
  md_hasta :: int
  md_intervalo :: string
  md_registros :: nat
  md_ajustado :: bool

record respuesta_historico =
  estado :: estado_respuesta
  datos :: "cotizacion list"
  metadata :: "metadata_historico option"
  mensaje :: "string option"
  codigo_error :: "codigo_error option"

text \<open>
  The provider's \<^verbatim>\<open>Ticker(symbol).history(start, end, interval, auto_adjust)\<close>. The two
  bounds are passed as \<^verbatim>\<open>strftime('%Y-%m-%d')\<close>, that is as calendar days: the day number
  of an instant in seconds is \<open>t div 86400\<close>.
\<close>

type_synonym history_range = "string \<Rightarrow> int \<Rightarrow> int \<Rightarrow> string \<Rightarrow> bool \<Rightarrow> string + dataframe"

text \<open>
  The messages are Python strings with the letter i-acute in \<^verbatim>\<open>simbolo\<close> and \<^verbatim>\<open>periodo\<close>;
  it is written here as its two UTF-8 bytes.
\<close>

definition i_acute :: string where
  "i_acute = [CHR 0xC3, CHR 0xAD]"

definition mensaje_error_yfinance :: "string \<Rightarrow> string \<Rightarrow> string" where
  "mensaje_error_yfinance simbolo_yahoo ticker_error =
    ''Error al obtener datos de Yahoo Finance para el s'' @ i_acute @ ''mbolo '' @ simbolo_yahoo @
    '': '' @ ticker_error"

definition mensaje_sin_datos :: "string \<Rightarrow> string \<Rightarrow> string" where
  "mensaje_sin_datos sim simbolo_yahoo =
    ''No se encontraron datos para el s'' @ i_acute @ ''mbolo '' @ sim @ '' ('' @ simbolo_yahoo @
    '') en el per'' @ i_acute @ ''odo solicitado''"

definition mensaje_no_procesados :: "string \<Rightarrow> string \<Rightarrow> string" where
  "mensaje_no_procesados sim simbolo_yahoo =
    ''Los datos obtenidos para '' @ sim @ '' ('' @ simbolo_yahoo @
    '') no pudieron ser procesados''"

definition respuesta_error :: "string \<Rightarrow> codigo_error \<Rightarrow> respuesta_historico" where
  "respuesta_error msg cod =
    \<lparr> estado = ERROR, datos = [], metadata = None, mensaje = Some msg,
      codigo_error = Some cod \<rparr>"

text \<open>
  \<^verbatim>\<open>obtener_historico\<close>, with the clock \<open>ahora\<close> for the default bounds. In the branch that
  builds the metadata the list of bars is not empty, so \<open>hd\<close> and \<open>last\<close> are
  \<^verbatim>\<open>cotizaciones[0]\<close> and \<^verbatim>\<open>cotizaciones[-1]\<close>. Nothing between the resolver and the result
  raises on a table with the five columns, so the outermost handler of the source is not
  reached.
\<close>

definition obtener_historico ::
  "history_range \<Rightarrow> int \<Rightarrow> solicitud_historico \<Rightarrow> respuesta_historico" where
  "obtener_historico hist_rango ahora solicitud =
    (let simbolo_yahoo = get_yahoo_symbol (sol_simbolo solicitud);
         desde = (case sol_desde solicitud of Some d \<Rightarrow> d | None \<Rightarrow> ahora - 365 * 86400);
         hasta = (case sol_hasta solicitud of Some h \<Rightarrow> h | None \<Rightarrow> ahora);
         interv = intervalo_value (sol_intervalo solicitud)
     in case hist_rango simbolo_yahoo (desde div 86400) (hasta div 86400) interv
               (sol_ajustado solicitud) of
          Inl ticker_error \<Rightarrow>
            respuesta_error (mensaje_error_yfinance simbolo_yahoo ticker_error) DATA_003
        | Inr df \<Rightarrow>
            if df = [] then
              respuesta_error (mensaje_sin_datos (sol_simbolo solicitud) simbolo_yahoo) DATA_002
            else
              (let cotizaciones =
                     convert_yf_history_to_cotizaciones df (sol_simbolo solicitud)
               in if cotizaciones = [] then
                    respuesta_error
                      (mensaje_no_procesados (sol_simbolo solicitud) simbolo_yahoo) DATA_003
                  else
                    \<lparr> estado = OK,
                      datos = cotizaciones,
                      metadata = Some
                        \<lparr> md_simbolo = sol_simbolo solicitud,
                          md_desde = timestamp (hd cotizaciones),
                          md_hasta = timestamp (last cotizaciones),
                          md_intervalo = interv,
                          md_registros = length cotizaciones,
                          md_ajustado = sol_ajustado solicitud \<rparr>,
                      mensaje = None,
                      codigo_error = None \<rparr>))"

text \<open>Whether a text occurs in a message, as Python's \<^verbatim>\<open>sub in msg\<close>.\<close>

fun contiene :: "string \<Rightarrow> string \<Rightarrow> bool" where
  "contiene [] sub = (sub = [])"
| "contiene (c # cs) sub = (startswith (c # cs) sub \<or> contiene cs sub)"

section \<open>Instrument lookup (main.py)\<close>

datatype tipo_activo = ACCION | CEDEAR | BONO | ETF | OPCION | FUTURO

datatype panel_mercado = LIDER | GENERAL | PYMES | BONOS | LETRAS

datatype mercado = BYMA | MAE | MAV | ROFEX | NYSE | NASDAQ

datatype moneda = ARS | USD | USD_LINKED | EUR

record activo_financiero =
  af_simbolo :: string
  af_tipo :: tipo_activo
  af_denominacion :: string
  af_panel :: panel_mercado
  af_mercado :: mercado
  af_moneda :: moneda
  af_codigo_isin :: "string option"
  af_codigo_cfi :: "string option"
  af_simbolo_yahoo :: "string option"

text \<open>
  The provider's \<^verbatim>\<open>Ticker(symbol).info\<close>: it raises or returns a dictionary, kept as an
  association list of texts; an empty text is a false value in the source's tests.
\<close>

type_synonym ticker_info = "string \<Rightarrow> string + (string \<times> string) list"

definition determinar_tipo :: "string \<Rightarrow> string \<Rightarrow> tipo_activo" where
  "determinar_tipo sim simbolo_yahoo =
    (if simbolo_yahoo = ''^MERV'' then BONO
     else if simbolo_yahoo = ''ARGT'' then ETF
     else if endswith sim ''.ADR'' then CEDEAR
     else ACCION)"

definition determinar_mercado :: "string \<Rightarrow> mercado" where
  "determinar_mercado simbolo_yahoo =
    (if endswith simbolo_yahoo ''.BA'' then BYMA
     else if \<not> CHR ''.'' \<in> set simbolo_yahoo \<or> startswith simbolo_yahoo ''^'' then NYSE
     else BYMA)"

definition determinar_moneda :: "mercado \<Rightarrow> moneda" where
  "determinar_moneda m = (if m \<noteq> BYMA then USD else ARS)"

definition verdadero :: "(string \<times> string) list \<Rightarrow> string \<Rightarrow> bool" where
  "verdadero info k = (case map_of info k of Some v \<Rightarrow> v \<noteq> [] | None \<Rightarrow> False)"

definition determinar_denominacion :: "string \<Rightarrow> (string \<times> string) list \<Rightarrow> string" where
  "determinar_denominacion sim info =
    (if info \<noteq> [] then
       (if verdadero info ''longName'' then the (map_of info ''longName'')
        else if verdadero info ''shortName'' then the (map_of info ''shortName'')
        else sim)
     else sim)"

text \<open>
  The retrieval of \<^verbatim>\<open>info\<close> with its two fallbacks to a 1-day table; \<open>None\<close> is every
  path of the source that returns \<^verbatim>\<open>None\<close> from there. When the fallback call of the
  first branch raises, the handler of \<^verbatim>\<open>info_error\<close> runs and asks for the table again.
\<close>

definition confirmar_existencia ::
  "history_period \<Rightarrow> string \<Rightarrow> (string \<times> string) list option" where
  "confirmar_existencia hist simbolo_yahoo =
    (case hist simbolo_yahoo P_1d of
       Inl ticker_error \<Rightarrow> None
     | Inr df \<Rightarrow> if df = [] then None else Some [(''shortName'', simbolo_yahoo)])"

definition obtener_info ::
  "ticker_info \<Rightarrow> history_period \<Rightarrow> string \<Rightarrow> (string \<times> string) list option" where
  "obtener_info tinfo hist simbolo_yahoo =
    (case tinfo simbolo_yahoo of
       Inr info \<Rightarrow>
         if info = [] then
           (case hist simbolo_yahoo P_1d of
              Inl info_error \<Rightarrow> confirmar_existencia hist simbolo_yahoo
            | Inr df \<Rightarrow> if df = [] then None else Some [(''shortName'', simbolo_yahoo)])
         else Some info
     | Inl info_error \<Rightarrow> confirmar_existencia hist simbolo_yahoo)"

text \<open>
  \<^verbatim>\<open>obtener_activo\<close>, with the cache \<^verbatim>\<open>_activos_cache\<close> passed in and returned.
\<close>

definition obtener_activo ::
  "ticker_info \<Rightarrow> history_period \<Rightarrow> (string \<rightharpoonup> activo_financiero) \<Rightarrow> string \<Rightarrow>
   activo_financiero option \<times> (string \<rightharpoonup> activo_financiero)" where
  "obtener_activo tinfo hist cache sim =
    (case cache sim of
       Some activo \<Rightarrow> (Some activo, cache)
     | None \<Rightarrow>
         (let simbolo_yahoo = get_yahoo_symbol sim
          in case obtener_info tinfo hist simbolo_yahoo of
               None \<Rightarrow> (None, cache)
             | Some info \<Rightarrow>
                 (let tipo = determinar_tipo sim simbolo_yahoo;
                      merc = determinar_mercado simbolo_yahoo;
                      mon = determinar_moneda merc;
                      denominacion = determinar_denominacion sim info;
                      activo =
                        \<lparr> af_simbolo = sim,
                          af_tipo = tipo,
                          af_denominacion = denominacion,
                          af_panel = LIDER,
                          af_mercado = merc,
                          af_moneda = mon,
                          af_codigo_isin = None,
                          af_codigo_cfi = None,
                          af_simbolo_yahoo = Some simbolo_yahoo \<rparr>
                  in (Some activo, cache(sim \<mapsto> activo)))))"

text \<open>
  The caches a client can hold: \<^verbatim>\<open>__init__\<close> starts with the empty one and only
  \<^verbatim>\<open>obtener_activo\<close> writes to it, with whatever the provider answers at that call.
\<close>

inductive cache_alcanzable :: "(string \<rightharpoonup> activo_financiero) \<Rightarrow> bool" where
  inicial: "cache_alcanzable Map.empty"
| paso: "cache_alcanzable cache \<Longrightarrow>
         cache_alcanzable (snd (obtener_activo tinfo hist cache sim))"

definition hist_rango_falla :: history_range where
  "hist_rango_falla y d h i a = Inl ''timeout''"

definition hist_rango_vacio :: history_range where
  "hist_rango_vacio y d h i a = Inr []"

definition hist_rango_sin_cierre :: history_range where
  "hist_rango_sin_cierre y d h i a = Inr [fila_sin_cierre 0 100]"

definition solicitud_merval :: solicitud_historico where
  "solicitud_merval =
    \<lparr> sol_simbolo = ''MERVAL'', sol_desde = None, sol_hasta = None, sol_intervalo = DIA_1,
      sol_ajustado = True \<rparr>"

definition tinfo_merval :: ticker_info where
  "tinfo_merval y = Inr [(''longName'', ''MERVAL'')]"

text \<open>
  The provider call that \<^verbatim>\<open>obtener_historico\<close> makes for a request, on its own.
\<close>

definition consulta_historico ::
  "history_range \<Rightarrow> int \<Rightarrow> solicitud_historico \<Rightarrow> string + dataframe" where
  "consulta_historico hist_rango ahora solicitud =
    hist_rango (get_yahoo_symbol (sol_simbolo solicitud))
      ((case sol_desde solicitud of Some d \<Rightarrow> d | None \<Rightarrow> ahora - 365 * 86400) div 86400)
      ((case sol_hasta solicitud of Some h \<Rightarrow> h | None \<Rightarrow> ahora) div 86400)
      (intervalo_value (sol_intervalo solicitud)) (sol_ajustado solicitud)"

definition activo_merval :: activo_financiero where
  "activo_merval =
    \<lparr> af_simbolo = ''MERVAL'', af_tipo = BONO, af_denominacion = ''MERVAL'', af_panel = LIDER,
      af_mercado = NYSE, af_moneda = USD, af_codigo_isin = None, af_codigo_cfi = None,
      af_simbolo_yahoo = Some ''^MERV'' \<rparr>"

section \<open>Floating-point values of the analytics\<close>

text \<open>
  The analytics compute with \<^verbatim>\<open>numpy.float64\<close> values, where a division by zero does not
  raise. A value is finite (a real number), an infinity with its sign (\<open>True\<close> for the
  positive one) or not a number. The two zeros of the format are one value here, and a
  zero divisor counts as the positive zero.

  The arithmetic of the format is not defined in this theory: what a finite exact result
  becomes (the nearest float, an infinity on overflow) is the function \<^verbatim>\<open>redondeo\<close> of the
  record below, and the numbers that the statistics of pandas and the power function of
  numpy return are its other fields. The operations of this section fix only what does not
  depend on rounding: the special values, and which results are missing.
\<close>

datatype flotante = Finito real | Infinito bool | NoNumero

fun es_nan :: "flotante \<Rightarrow> bool" where
  "es_nan NoNumero = True"
| "es_nan (Finito v) = False"
| "es_nan (Infinito s) = False"

type_synonym serie = "(int \<times> flotante) list"

record biblioteca =
  redondeo :: "real \<Rightarrow> flotante"
  potencia_num :: "real \<Rightarrow> real \<Rightarrow> flotante"
  std_num :: "flotante list \<Rightarrow> flotante"
  var_num :: "flotante list \<Rightarrow> flotante"
  cov_series :: "serie \<Rightarrow> serie \<Rightarrow> flotante"
  pearson_num :: "(flotante \<times> flotante) list \<Rightarrow> flotante"

text \<open>Zero is a float: an exact result of zero stays zero.\<close>

definition redondear :: "biblioteca \<Rightarrow> real \<Rightarrow> flotante" where
  "redondear lib x = (if x = 0 then Finito 0 else redondeo lib x)"


fun f_sub :: "biblioteca \<Rightarrow> flotante \<Rightarrow> flotante \<Rightarrow> flotante" where
  "f_sub lib (Finito a) (Finito b) = redondear lib (a - b)"
| "f_sub lib (Infinito s) (Finito b) = Infinito s"
| "f_sub lib (Finito a) (Infinito t) = Infinito (\<not> t)"
| "f_sub lib (Infinito s) (Infinito t) = (if s = t then NoNumero else Infinito s)"
| "f_sub lib _ _ = NoNumero"

fun f_mul :: "biblioteca \<Rightarrow> flotante \<Rightarrow> flotante \<Rightarrow> flotante" where
  "f_mul lib (Finito a) (Finito b) = redondear lib (a * b)"
| "f_mul lib (Infinito s) (Finito b) = (if b = 0 then NoNumero else Infinito (s = (0 < b)))"
| "f_mul lib (Finito a) (Infinito t) = (if a = 0 then NoNumero else Infinito (t = (0 < a)))"
| "f_mul lib (Infinito s) (Infinito t) = Infinito (s = t)"
| "f_mul lib _ _ = NoNumero"

fun f_div :: "biblioteca \<Rightarrow> flotante \<Rightarrow> flotante \<Rightarrow> flotante" where
  "f_div lib (Finito a) (Finito b) =
    (if b = 0 then (if a = 0 then NoNumero else Infinito (0 < a))
     else redondear lib (a / b))"
| "f_div lib (Infinito s) (Finito b) = Infinito (s = (0 \<le> b))"
| "f_div lib (Finito a) (Infinito t) = Finito 0"
| "f_div lib _ _ = NoNumero"



section \<open>The pandas operations of the analytics\<close>

text \<open>The values of a column that are not missing (\<^verbatim>\<open>skipna=True\<close>, \<^verbatim>\<open>notna\<close>).\<close>

definition validos :: "flotante list \<Rightarrow> flotante list" where
  "validos cs = filter (\<lambda>c. \<not> es_nan c) cs"


definition var :: "biblioteca \<Rightarrow> flotante list \<Rightarrow> flotante" where
  "var lib cs =
    (let xs = validos cs in if length xs < 2 then NoNumero else var_num lib xs)"

text \<open>
  \<^verbatim>\<open>Series.cov(other)\<close>: the library joins the two series on their labels and computes the
  sample covariance; the whole of it is the library's.
\<close>

definition cov :: "biblioteca \<Rightarrow> serie \<Rightarrow> serie \<Rightarrow> flotante" where
  "cov lib a b = cov_series lib a b"

text \<open>
  \<^verbatim>\<open>pct_change()\<close> of a column: missing values are first filled forward (the default
  \<^verbatim>\<open>fill_method='pad'\<close>), then each value is divided by the one before it, minus 1; the
  first position has no predecessor and is \<open>NaN\<close>.
\<close>

fun ffill :: "flotante \<Rightarrow> flotante list \<Rightarrow> flotante list" where
  "ffill prev [] = []"
| "ffill prev (c # cs) = (if es_nan c then prev # ffill prev cs else c # ffill c cs)"

fun cambios :: "biblioteca \<Rightarrow> flotante \<Rightarrow> flotante list \<Rightarrow> flotante list" where
  "cambios lib prev [] = []"
| "cambios lib prev (c # cs) = f_sub lib (f_div lib c prev) (Finito 1) # cambios lib c cs"

definition pct_change :: "biblioteca \<Rightarrow> flotante list \<Rightarrow> flotante list" where
  "pct_change lib cs = cambios lib NoNumero (ffill NoNumero cs)"

text \<open>A series is a column with its index; \<^verbatim>\<open>dropna()\<close> removes the missing entries.\<close>

definition pct_change_serie :: "biblioteca \<Rightarrow> serie \<Rightarrow> serie" where
  "pct_change_serie lib s = zip (map fst s) (pct_change lib (map snd s))"

definition dropna :: "serie \<Rightarrow> serie" where
  "dropna s = filter (\<lambda>(t, v). \<not> es_nan v) s"

section \<open>Returns (utilidades\_mcp.py)\<close>

text \<open>
  The table built by \<^verbatim>\<open>obtener_dataframe_historico\<close> has one row per bar, indexed by the
  bar's timestamp; it is kept as the list of bars. The result is \<^verbatim>\<open>None\<close> when the
  response is an error or has no bars.
\<close>

definition obtener_dataframe_historico ::
  "history_range \<Rightarrow> int \<Rightarrow> string \<Rightarrow> int \<Rightarrow> int option \<Rightarrow> intervalo \<Rightarrow> cotizacion list option"
  where
  "obtener_dataframe_historico hist_rango ahora sim desde hasta interv =
    (let hasta' = (case hasta of None \<Rightarrow> ahora | Some h \<Rightarrow> h);
         solicitud =
           \<lparr> sol_simbolo = sim, sol_desde = Some desde, sol_hasta = Some hasta',
             sol_intervalo = interv, sol_ajustado = True \<rparr>;
         respuesta = obtener_historico hist_rango ahora solicitud
     in if estado respuesta \<noteq> OK \<or> datos respuesta = [] then None
        else Some (datos respuesta))"

text \<open>The column \<^verbatim>\<open>df['cierre']\<close> and the series \<^verbatim>\<open>df['cierre'].pct_change() * 100\<close>.\<close>

definition columna_cierre :: "cotizacion list \<Rightarrow> flotante list" where
  "columna_cierre df = map (\<lambda>b. Finito (cierre b)) df"

definition rendimientos_diarios :: "biblioteca \<Rightarrow> cotizacion list \<Rightarrow> flotante list" where
  "rendimientos_diarios lib df =
    map (\<lambda>r. f_mul lib r (Finito 100)) (pct_change lib (columna_cierre df))"


section \<open>Beta (utilidades\_mcp.py)\<close>

text \<open>
  \<^verbatim>\<open>Index.intersection\<close>: the labels of the first index that occur in the second, each once,
  in the order of their first occurrence in the first index. \<^verbatim>\<open>df.loc[labels]\<close>: for each
  label in turn, the rows of the table that carry it.
\<close>

definition unico :: "int list \<Rightarrow> int list" where
  "unico xs = rev (remdups (rev xs))"

definition intersection :: "int list \<Rightarrow> int list \<Rightarrow> int list" where
  "intersection a b = filter (\<lambda>t. t \<in> set b) (unico a)"

definition loc :: "cotizacion list \<Rightarrow> int list \<Rightarrow> cotizacion list" where
  "loc df fechas = concat (map (\<lambda>t. filter (\<lambda>c. timestamp c = t) df) fechas)"

definition serie_cierre :: "cotizacion list \<Rightarrow> serie" where
  "serie_cierre df = map (\<lambda>c. (timestamp c, Finito (cierre c))) df"

text \<open>
  The series \<^verbatim>\<open>df.loc[fechas_comunes]['cierre'].pct_change().dropna()\<close> of a table.
\<close>

definition rendimientos_en :: "biblioteca \<Rightarrow> cotizacion list \<Rightarrow> int list \<Rightarrow> serie" where
  "rendimientos_en lib df fechas = dropna (pct_change_serie lib (serie_cierre (loc df fechas)))"

text \<open>
  The common dates of two tables, \<^verbatim>\<open>df_activo.index.intersection(df_indice.index)\<close>.
\<close>

definition fechas_comunes_de :: "cotizacion list \<Rightarrow> cotizacion list \<Rightarrow> int list" where
  "fechas_comunes_de df_activo df_indice =
    intersection (map timestamp df_activo) (map timestamp df_indice)"

text \<open>
  The part of \<^verbatim>\<open>calcular_beta\<close> after the two tables have been retrieved. The test
  \<^verbatim>\<open>varianza == 0\<close> is on the float the library returned.
\<close>

definition beta_de_tablas ::
  "biblioteca \<Rightarrow> cotizacion list \<Rightarrow> cotizacion list \<Rightarrow> flotante option" where
  "beta_de_tablas lib df_activo df_indice =
    (let fechas_comunes = intersection (map timestamp df_activo) (map timestamp df_indice)
     in if length fechas_comunes < 30 then None
        else
          (let rendimientos_activo = rendimientos_en lib df_activo fechas_comunes;
               rendimientos_indice = rendimientos_en lib df_indice fechas_comunes;
               covarianza = cov lib rendimientos_activo rendimientos_indice;
               varianza = var lib (map snd rendimientos_indice)
           in if varianza = Finito 0 then None
              else Some (f_div lib covarianza varianza)))"

definition calcular_beta ::
  "biblioteca \<Rightarrow> history_range \<Rightarrow> int \<Rightarrow> string \<Rightarrow> string \<Rightarrow> int option \<Rightarrow> int option \<Rightarrow>
   flotante option" where
  "calcular_beta lib hist_rango ahora sim indice_ref desde hasta =
    (let desde' = (case desde of None \<Rightarrow> ahora - 365 * 86400 | Some d \<Rightarrow> d);
         hasta' = (case hasta of None \<Rightarrow> ahora | Some h \<Rightarrow> h);
         df_activo = obtener_dataframe_historico hist_rango ahora sim desde' (Some hasta') DIA_1;
         df_indice =
           obtener_dataframe_historico hist_rango ahora indice_ref desde' (Some hasta') DIA_1
     in case df_activo of
          None \<Rightarrow> None
        | Some a \<Rightarrow>
            (case df_indice of
               None \<Rightarrow> None
             | Some i \<Rightarrow> beta_de_tablas lib a i))"

text \<open>
  The two tables that \<^verbatim>\<open>calcular_beta\<close> retrieves, with its default bounds.
\<close>

definition tabla_para_beta ::
  "history_range \<Rightarrow> int \<Rightarrow> string \<Rightarrow> int option \<Rightarrow> int option \<Rightarrow> cotizacion list option" where
  "tabla_para_beta hist_rango ahora sim desde hasta =
    obtener_dataframe_historico hist_rango ahora sim
      (case desde of None \<Rightarrow> ahora - 365 * 86400 | Some d \<Rightarrow> d)
      (Some (case hasta of None \<Rightarrow> ahora | Some h \<Rightarrow> h)) DIA_1"

text \<open>
  The aligned observations in the words of the specification: the rows of a table whose
  timestamp the other table has too, and the day-over-day returns of their closes, each
  the quotient of a close by the close before it, minus 1.
\<close>

definition filas_comunes :: "cotizacion list \<Rightarrow> cotizacion list \<Rightarrow> cotizacion list" where
  "filas_comunes df otra = filter (\<lambda>c. timestamp c \<in> set (map timestamp otra)) df"

fun rendimientos_spec :: "biblioteca \<Rightarrow> cotizacion list \<Rightarrow> serie" where
  "rendimientos_spec lib [] = []"
| "rendimientos_spec lib [c] = []"
| "rendimientos_spec lib (c # d # rest) =
    (let r = f_sub lib (f_div lib (Finito (cierre d)) (Finito (cierre c))) (Finito 1)
     in (if es_nan r then [] else [(timestamp d, r)]) @ rendimientos_spec lib (d # rest))"

text \<open>
  Beta in the words of the specification, over the aligned observations: absent with fewer
  than 30 of them and when the variance of the returns of the benchmark is zero, else the
  covariance of the two series of returns divided by that variance.
\<close>

definition beta_spec :: "biblioteca \<Rightarrow> cotizacion list \<Rightarrow> cotizacion list \<Rightarrow> flotante option" where
  "beta_spec lib df_activo df_indice =
    (let observaciones_activo = filas_comunes df_activo df_indice;
         observaciones_indice = filas_comunes df_indice df_activo;
         retornos_activo = rendimientos_spec lib observaciones_activo;
         retornos_indice = rendimientos_spec lib observaciones_indice
     in if length observaciones_activo < 30 then None
        else if var lib (map snd retornos_indice) = Finito 0 then None
        else Some (f_div lib (cov lib retornos_activo retornos_indice)
                     (var lib (map snd retornos_indice))))"
section \<open>Correlation matrix (utilidades\_mcp.py)\<close>

text \<open>
  A table with named columns over one index, as \<^verbatim>\<open>datos_combinados\<close>: the columns are kept
  in the order of their first assignment. \<^verbatim>\<open>DataFrame.empty\<close> holds when the table has no
  row or no column.
\<close>

record tabla =
  tb_index :: "int list"
  tb_cols :: "(string \<times> flotante list) list"

definition tabla_vacia :: tabla where
  "tabla_vacia = \<lparr> tb_index = [], tb_cols = [] \<rparr>"


fun actualizar ::
  "string \<Rightarrow> flotante list \<Rightarrow> (string \<times> flotante list) list \<Rightarrow> (string \<times> flotante list) list"
  where
  "actualizar k v [] = [(k, v)]"
| "actualizar k v ((k', v') # rest) =
    (if k = k' then (k, v) # rest else (k', v') # actualizar k v rest)"

text \<open>
  \<^verbatim>\<open>datos_combinados[simbolo] = serie\<close>. A table without rows takes the index of the
  series. A series whose index is the index of the table is stored as it is. Any other
  series is aligned to the index of the table: a label of the table that the series lacks
  gets \<open>NaN\<close>, a label of the series that the table lacks is dropped; this raises
  \<^verbatim>\<open>ValueError\<close> when a label occurs twice in the series.
\<close>

definition reindex :: "serie \<Rightarrow> int list \<Rightarrow> flotante list" where
  "reindex s idx = map (\<lambda>t. case map_of s t of Some v \<Rightarrow> v | None \<Rightarrow> NoNumero) idx"

definition asignar_columna :: "tabla \<Rightarrow> string \<Rightarrow> serie \<Rightarrow> string + tabla" where
  "asignar_columna t nombre s =
    (if tb_index t = [] then
       Inr \<lparr> tb_index = map fst s,
             tb_cols = actualizar nombre (map snd s)
               (map (\<lambda>(n, c). (n, replicate (length s) NoNumero)) (tb_cols t)) \<rparr>
     else if map fst s = tb_index t then
       Inr \<lparr> tb_index = tb_index t, tb_cols = actualizar nombre (map snd s) (tb_cols t) \<rparr>
     else if \<not> distinct (map fst s) then
       Inl ''cannot reindex on an axis with duplicate labels''
     else
       Inr \<lparr> tb_index = tb_index t,
             tb_cols = actualizar nombre (reindex s (tb_index t)) (tb_cols t) \<rparr>)"

text \<open>
  The loop of \<^verbatim>\<open>calcular_matriz_correlacion\<close> over the symbols; an exception of the
  assignment is not caught and ends the operation.
\<close>

fun combinar_loop ::
  "(string \<Rightarrow> cotizacion list option) \<Rightarrow> string list \<Rightarrow> tabla \<Rightarrow> string + tabla" where
  "combinar_loop obtener [] combinados = Inr combinados"
| "combinar_loop obtener (sim # rest) combinados =
    (case obtener sim of
       Some df \<Rightarrow>
         (case asignar_columna combinados sim (serie_cierre df) of
            Inl e \<Rightarrow> Inl e
          | Inr combinados' \<Rightarrow> combinar_loop obtener rest combinados')
     | None \<Rightarrow> combinar_loop obtener rest combinados)"

text \<open>
  \<^verbatim>\<open>DataFrame.pct_change()\<close> works column by column; \<^verbatim>\<open>DataFrame.dropna()\<close> keeps the rows
  without a missing value.
\<close>

definition pct_change_tabla :: "biblioteca \<Rightarrow> tabla \<Rightarrow> tabla" where
  "pct_change_tabla lib t =
    \<lparr> tb_index = tb_index t, tb_cols = map (\<lambda>(n, c). (n, pct_change lib c)) (tb_cols t) \<rparr>"

definition filas_completas :: "tabla \<Rightarrow> nat list" where
  "filas_completas t =
    filter (\<lambda>i. list_all (\<lambda>(n, c). \<not> es_nan (c ! i)) (tb_cols t)) [0..<length (tb_index t)]"

definition dropna_tabla :: "tabla \<Rightarrow> tabla" where
  "dropna_tabla t =
    (let keep = filas_completas t
     in \<lparr> tb_index = map (\<lambda>i. tb_index t ! i) keep,
          tb_cols = map (\<lambda>(n, c). (n, map (\<lambda>i. c ! i) keep)) (tb_cols t) \<rparr>)"



fun posicion :: "string \<Rightarrow> string list \<Rightarrow> nat option" where
  "posicion a [] = None"
| "posicion a (n # ns) = (if a = n then Some 0 else map_option Suc (posicion a ns))"



definition tabla_para_matriz ::
  "history_range \<Rightarrow> int \<Rightarrow> string \<Rightarrow> int \<Rightarrow> int option \<Rightarrow> cotizacion list option" where
  "tabla_para_matriz hist_rango ahora sim desde hasta =
    obtener_dataframe_historico hist_rango ahora sim desde
      (Some (case hasta of None \<Rightarrow> ahora | Some h \<Rightarrow> h)) DIA_1"

definition datos_combinados ::
  "history_range \<Rightarrow> int \<Rightarrow> string list \<Rightarrow> int \<Rightarrow> int option \<Rightarrow> string + tabla" where
  "datos_combinados hist_rango ahora simbolos desde hasta =
    combinar_loop (\<lambda>sim. tabla_para_matriz hist_rango ahora sim desde hasta) simbolos tabla_vacia"

definition rendimientos_combinados ::
  "biblioteca \<Rightarrow> history_range \<Rightarrow> int \<Rightarrow> string list \<Rightarrow> int \<Rightarrow> int option \<Rightarrow> string + tabla" where
  "rendimientos_combinados lib hist_rango ahora simbolos desde hasta =
    (case datos_combinados hist_rango ahora simbolos desde hasta of
       Inl e \<Rightarrow> Inl e
     | Inr combinados \<Rightarrow> Inr (dropna_tabla (pct_change_tabla lib combinados)))"

section \<open>A library in exact arithmetic\<close>

text \<open>
  One value of the record of the library, for the examples: no rounding, and the statistics
  by their formulas over the reals. A value that is not finite makes a statistic \<open>NaN\<close>.
\<close>

fun reales :: "flotante list \<Rightarrow> real list option" where
  "reales [] = Some []"
| "reales (Finito v # cs) = map_option ((#) v) (reales cs)"
| "reales (_ # cs) = None"

definition media :: "real list \<Rightarrow> real" where
  "media xs = sum_list xs / real (length xs)"

text \<open>Sum of the products of the deviations from the means, over paired observations.\<close>

definition suma_productos :: "(real \<times> real) list \<Rightarrow> real" where
  "suma_productos ps =
    (let mx = media (map fst ps); my = media (map snd ps)
     in sum_list (map (\<lambda>(x, y). (x - mx) * (y - my)) ps))"

definition suma_cuadrados :: "real list \<Rightarrow> real" where
  "suma_cuadrados xs = suma_productos (zip xs xs)"

definition var_exacta :: "flotante list \<Rightarrow> flotante" where
  "var_exacta cs =
    (case reales cs of
       Some xs \<Rightarrow>
         if length xs < 2 then NoNumero else Finito (suma_cuadrados xs / real (length xs - 1))
     | None \<Rightarrow> NoNumero)"

definition std_exacta :: "flotante list \<Rightarrow> flotante" where
  "std_exacta cs = (case var_exacta cs of Finito v \<Rightarrow> Finito (sqrt v) | _ \<Rightarrow> NoNumero)"

text \<open>The pairs of values that two series with unique labels have at a common label.\<close>

fun pares_alineados :: "serie \<Rightarrow> serie \<Rightarrow> (flotante \<times> flotante) list" where
  "pares_alineados [] other = []"
| "pares_alineados ((t, x) # rest) other =
    (case map_of other t of
       Some y \<Rightarrow>
         if es_nan x \<or> es_nan y then pares_alineados rest other
         else (x, y) # pares_alineados rest other
     | None \<Rightarrow> pares_alineados rest other)"

definition cov_exacta :: "serie \<Rightarrow> serie \<Rightarrow> flotante" where
  "cov_exacta a b =
    (let ps = pares_alineados a b
     in case reales (map fst ps) of
          None \<Rightarrow> NoNumero
        | Some xs \<Rightarrow>
            (case reales (map snd ps) of
               None \<Rightarrow> NoNumero
             | Some ys \<Rightarrow>
                 if length ps < 2 then NoNumero
                 else Finito (suma_productos (zip xs ys) / real (length ps - 1))))"

definition pearson_exacto :: "(flotante \<times> flotante) list \<Rightarrow> flotante" where
  "pearson_exacto ps =
    (case reales (map fst ps) of
       None \<Rightarrow> NoNumero
     | Some xs \<Rightarrow>
         (case reales (map snd ps) of
            None \<Rightarrow> NoNumero
          | Some ys \<Rightarrow>
              (let divisor = sqrt (suma_cuadrados xs * suma_cuadrados ys)
               in if divisor \<noteq> 0 then Finito (suma_productos (zip xs ys) / divisor)
                  else NoNumero)))"

definition lib_exacta :: biblioteca where
  "lib_exacta =
    \<lparr> redondeo = Finito,
      potencia_num = (\<lambda>a e. Finito (if 0 < a then a powr e else a powi \<lfloor>e\<rfloor>)),
      std_num = std_exacta,
      var_num = var_exacta,
      cov_series = cov_exacta,
      pearson_num = pearson_exacto \<rparr>"

section \<open>Sample series for the analytics\<close>

definition barra :: "int \<Rightarrow> real \<Rightarrow> cotizacion" where
  "barra dia precio = cotizacion_de_fila ''GGAL'' (fila_completa (86400 * dia) precio)"

text \<open>
  Thirty days of an index that doubles and halves in turn, and of an asset that gains a half
  when the index doubles and loses a quarter when it halves.
\<close>

definition filas_indice :: dataframe where
  "filas_indice =
    [fila_completa 0 100, fila_completa 86400 200, fila_completa 172800 100,
     fila_completa 259200 200, fila_completa 345600 100, fila_completa 432000 200,
     fila_completa 518400 100, fila_completa 604800 200, fila_completa 691200 100,
     fila_completa 777600 200, fila_completa 864000 100, fila_completa 950400 200,
     fila_completa 1036800 100, fila_completa 1123200 200, fila_completa 1209600 100,
     fila_completa 1296000 200, fila_completa 1382400 100, fila_completa 1468800 200,
     fila_completa 1555200 100, fila_completa 1641600 200, fila_completa 1728000 100,
     fila_completa 1814400 200, fila_completa 1900800 100, fila_completa 1987200 200,
     fila_completa 2073600 100, fila_completa 2160000 200, fila_completa 2246400 100,
     fila_completa 2332800 200, fila_completa 2419200 100, fila_completa 2505600 200]"

definition filas_activo :: dataframe where
  "filas_activo =
    [fila_completa 0 8796093022208, fila_completa 86400 13194139533312,
     fila_completa 172800 9895604649984, fila_completa 259200 14843406974976,
     fila_completa 345600 11132555231232, fila_completa 432000 16698832846848,
     fila_completa 518400 12524124635136, fila_completa 604800 18786186952704,
     fila_completa 691200 14089640214528, fila_completa 777600 21134460321792,
     fila_completa 864000 15850845241344, fila_completa 950400 23776267862016,
     fila_completa 1036800 17832200896512, fila_completa 1123200 26748301344768,
     fila_completa 1209600 20061226008576, fila_completa 1296000 30091839012864,
     fila_completa 1382400 22568879259648, fila_completa 1468800 33853318889472,
     fila_completa 1555200 25389989167104, fila_completa 1641600 38084983750656,
     fila_completa 1728000 28563737812992, fila_completa 1814400 42845606719488,
     fila_completa 1900800 32134205039616, fila_completa 1987200 48201307559424,
     fila_completa 2073600 36150980669568, fila_completa 2160000 54226471004352,
     fila_completa 2246400 40669853253264, fila_completa 2332800 61004779879896,
     fila_completa 2419200 45753584909922, fila_completa 2505600 68630377364883]"

definition hist_rango_beta :: history_range where
  "hist_rango_beta y d h i a = (if y = ''^MERV'' then Inr filas_indice else Inr filas_activo)"

definition hist_rango_indice_corto :: history_range where
  "hist_rango_indice_corto y d h i a =
    (if y = ''^MERV'' then Inr (take 2 filas_indice) else Inr filas_activo)"

definition hist_rango_dos_barras :: history_range where
  "hist_rango_dos_barras y d h i a = Inr [fila_completa 0 100, fila_completa 86400 110]"




text \<open>The index of the first provider with every close at 100.\<close>

definition hist_rango_indice_plano :: history_range where
  "hist_rango_indice_plano y d h i a =
    (if y = ''^MERV'' then Inr (map (\<lambda>r. fila_completa (indice r) 100) filas_indice)
     else Inr filas_activo)"

section \<open>Properties of the resolver\<close>

lemma endswith_iff_append: "endswith s suf \<longleftrightarrow> (\<exists>p. s = p @ suf)"
proof
  assume h: "endswith s suf"
  then have "s = take (length s - length suf) s @ suf"
    by (metis append_take_drop_id endswith_def)
  then show "\<exists>p. s = p @ suf" ..
next
  assume "\<exists>p. s = p @ suf"
  then obtain p where "s = p @ suf" ..
  then show "endswith s suf" by (simp add: endswith_def)
qed

lemma get_yahoo_symbol_YPF: "get_yahoo_symbol ''YPF'' = ''YPFD.BA''"
  by (simp add: get_yahoo_symbol_def SIMBOLOS_MAPPING_def)

lemma simbolo_yahoo_ultima_eq: "simbolo_yahoo_ultima sim = get_yahoo_symbol sim"
  by (auto simp: simbolo_yahoo_ultima_def Let_def get_yahoo_symbol_YPF)

text \<open>
  C8. The resolver is a total function into strings: a symbol in the table resolves to its
  table entry; a symbol outside the table that ends in neither \<^verbatim>\<open>.BA\<close> nor \<^verbatim>\<open>.ADR\<close> gets
  \<^verbatim>\<open>.BA\<close> appended, so \<^verbatim>\<open>UNKNOWN123\<close> resolves to \<^verbatim>\<open>UNKNOWN123.BA\<close>; any other symbol is
  returned unchanged.
\<close>

theorem get_yahoo_symbol_cases:
  "(\<forall>y. map_of SIMBOLOS_MAPPING sim = Some y \<longrightarrow> get_yahoo_symbol sim = y) \<and>
   (map_of SIMBOLOS_MAPPING sim = None \<and> \<not> endswith sim ''.BA'' \<and>
      \<not> endswith sim ''.ADR'' \<longrightarrow> get_yahoo_symbol sim = sim @ ''.BA'') \<and>
   (map_of SIMBOLOS_MAPPING sim = None \<and> (endswith sim ''.BA'' \<or>
      endswith sim ''.ADR'') \<longrightarrow> get_yahoo_symbol sim = sim) \<and>
   get_yahoo_symbol ''UNKNOWN123'' = ''UNKNOWN123.BA''"
proof -
  have "get_yahoo_symbol ''UNKNOWN123'' = ''UNKNOWN123.BA''"
    by (simp add: get_yahoo_symbol_def SIMBOLOS_MAPPING_def endswith_def)
  then show ?thesis
    by (auto simp: get_yahoo_symbol_def)
qed

theorem get_yahoo_symbol_cases_witness:
  "map_of SIMBOLOS_MAPPING ''MERVAL'' = Some ''^MERV'' \<and> get_yahoo_symbol ''MERVAL'' = ''^MERV'' \<and>
   map_of SIMBOLOS_MAPPING ''UNKNOWN123'' = None \<and> \<not> endswith ''UNKNOWN123'' ''.BA'' \<and>
   \<not> endswith ''UNKNOWN123'' ''.ADR'' \<and> get_yahoo_symbol ''UNKNOWN123'' = ''UNKNOWN123.BA'' \<and>
   map_of SIMBOLOS_MAPPING ''ERAR.BA'' = None \<and> endswith ''ERAR.BA'' ''.BA'' \<and>
   get_yahoo_symbol ''ERAR.BA'' = ''ERAR.BA''"
proof -
  have a: "map_of SIMBOLOS_MAPPING ''MERVAL'' = Some ''^MERV''"
    by (simp add: SIMBOLOS_MAPPING_def)
  have b: "map_of SIMBOLOS_MAPPING ''UNKNOWN123'' = None \<and> \<not> endswith ''UNKNOWN123'' ''.BA'' \<and>
      \<not> endswith ''UNKNOWN123'' ''.ADR''"
    by (simp add: SIMBOLOS_MAPPING_def endswith_def)
  have c: "map_of SIMBOLOS_MAPPING ''ERAR.BA'' = None \<and> endswith ''ERAR.BA'' ''.BA''"
    by (simp add: SIMBOLOS_MAPPING_def endswith_def)
  from a b c get_yahoo_symbol_cases [of "''MERVAL''"] get_yahoo_symbol_cases [of "''UNKNOWN123''"]
    get_yahoo_symbol_cases [of "''ERAR.BA''"]
  show ?thesis by blast
qed

section \<open>Properties of the normalizer and of latest-bar retrieval\<close>

lemma convert_loop_eq:
  "convert_loop sim rows acc =
     acc @ map (cotizacion_de_fila sim) (filter (\<lambda>row. \<not> fila_incompleta row) rows)"
  by (induction rows arbitrary: acc) simp_all

lemma convert_eq:
  "convert_yf_history_to_cotizaciones df sim =
     map (cotizacion_de_fila sim) (filter (\<lambda>row. \<not> fila_incompleta row) df)"
  by (simp add: convert_yf_history_to_cotizaciones_def convert_loop_eq)

lemma length_filter_compl:
  "length (filter (\<lambda>x. \<not> P x) xs) = length xs - length (filter P xs)"
  using sum_length_filter_compl [of P xs] by simp

lemma primera_cotizacion_eq:
  "primera_cotizacion df sim =
     (case convert_yf_history_to_cotizaciones df sim of [] \<Rightarrow> None | c # _ \<Rightarrow> Some c)"
  by (simp add: primera_cotizacion_def convert_yf_history_to_cotizaciones_def)

lemma ultima_con_simbolo_escalar:
  "ultima_con_simbolo hist y sim =
    (case escalar hist y [P_1d, P_5d, P_1mo] of
       (Inl e, ps) \<Rightarrow> (None, map (Pair y) ps)
     | (Inr df, ps) \<Rightarrow>
         ((case convert_yf_history_to_cotizaciones df sim of [] \<Rightarrow> None | c # _ \<Rightarrow> Some c),
          map (Pair y) ps))"
  by (simp add: ultima_con_simbolo_def primera_cotizacion_eq split: sum.splits)

lemma ultima_5d:
  assumes "hist y P_1d = Inr []" "hist y P_5d = Inr [row]" "\<not> fila_incompleta row"
  shows "ultima_con_simbolo hist y sim = (Some (cotizacion_de_fila sim row), [(y, P_1d), (y, P_5d)])"
  using assms by (simp add: ultima_con_simbolo_def primera_cotizacion_def convert_eq)

lemma multiples_loop_eq:
  "multiples_loop hist xs (m, c) =
     ((\<lambda>k. if k \<in> set xs then Some (fst (obtener_ultima_cotizacion hist k)) else m k),
      c @ concat (map (\<lambda>s. snd (obtener_ultima_cotizacion hist s)) xs))"
proof (induction xs arbitrary: m c)
  case Nil
  show ?case by simp
next
  case (Cons x xs)
  show ?case
    by (auto simp: Cons.IH split_beta Let_def fun_eq_iff)
qed

text \<open>
  C3. The normalizer emits one bar for every row whose open, high, low and close are all
  present and none for any other row, in the order of the rows: the output is the complete
  rows mapped to bars. So N rows of which M are incomplete give N - M bars; every bar has
  \<^verbatim>\<open>ajustado = True\<close>; the nominal volume is 0 when the volume column or the volume cell is
  missing; the empty table gives the empty list.
\<close>

theorem convert_drops_incomplete_rows:
  "convert_yf_history_to_cotizaciones df sim =
     map (cotizacion_de_fila sim) (filter (\<lambda>row. \<not> fila_incompleta row) df) \<and>
   length (convert_yf_history_to_cotizaciones df sim) =
     length df - length (filter fila_incompleta df) \<and>
   (\<forall>c \<in> set (convert_yf_history_to_cotizaciones df sim). ajustado c) \<and>
   (\<forall>row. col_Volume row = None \<or> col_Volume row = Some NaN \<longrightarrow>
      volumen_nominal (cotizacion_de_fila sim row) = 0) \<and>
   convert_yf_history_to_cotizaciones [] sim = []"
proof -
  have ord: "convert_yf_history_to_cotizaciones df sim =
     map (cotizacion_de_fila sim) (filter (\<lambda>row. \<not> fila_incompleta row) df)"
    by (rule convert_eq)
  have len: "length (convert_yf_history_to_cotizaciones df sim) =
     length df - length (filter fila_incompleta df)"
    by (simp add: convert_eq length_filter_compl)
  have adj: "\<forall>c \<in> set (convert_yf_history_to_cotizaciones df sim). ajustado c"
    by (auto simp: convert_eq cotizacion_de_fila_def)
  have vol: "\<forall>row. col_Volume row = None \<or> col_Volume row = Some NaN \<longrightarrow>
      volumen_nominal (cotizacion_de_fila sim row) = 0"
    by (auto simp: cotizacion_de_fila_def)
  have emp: "convert_yf_history_to_cotizaciones [] sim = []"
    by (simp add: convert_yf_history_to_cotizaciones_def)
  from ord len adj vol emp show ?thesis by blast
qed

theorem convert_drops_incomplete_rows_witness:
  "convert_yf_history_to_cotizaciones
     [fila_completa 0 100, fila_sin_cierre 86400 101, fila_sin_volumen 172800 102] ''GGAL'' =
     [cotizacion_de_fila ''GGAL'' (fila_completa 0 100),
      cotizacion_de_fila ''GGAL'' (fila_sin_volumen 172800 102)] \<and>
   length (convert_yf_history_to_cotizaciones
     [fila_completa 0 100, fila_sin_cierre 86400 101, fila_sin_volumen 172800 102] ''GGAL'') = 3 - 1 \<and>
   cotizacion_de_fila ''GGAL'' (fila_completa 0 100) \<in> set (convert_yf_history_to_cotizaciones
     [fila_completa 0 100, fila_sin_cierre 86400 101, fila_sin_volumen 172800 102] ''GGAL'') \<and>
   ajustado (cotizacion_de_fila ''GGAL'' (fila_completa 0 100)) \<and>
   col_Volume (fila_sin_volumen 172800 102) = None \<and>
   volumen_nominal (cotizacion_de_fila ''GGAL'' (fila_sin_volumen 172800 102)) = 0"
  using convert_drops_incomplete_rows
    [of "[fila_completa 0 100, fila_sin_cierre 86400 101, fila_sin_volumen 172800 102]" "''GGAL''"]
  by (simp add: fila_incompleta_def fila_completa_def fila_sin_cierre_def fila_sin_volumen_def)

text \<open>
  C1, as the code has it. \<^verbatim>\<open>obtener_ultima_cotizacion\<close> tries the windows 1 day, 5 days,
  1 month in this order and stops at the first window whose call raises or whose table has
  at least one row (the test is \<^verbatim>\<open>df.empty\<close> on the raw table, before normalization). The
  result is the bar at position 0 of the normalized table of that window, and absent when
  the call raised, when all three tables are empty or when no row of the chosen table
  survives normalization. In particular, when the 1-day table is empty and the 5-day table
  has one complete row, that row's bar is returned and the 1-month window is not requested.
\<close>

theorem ultima_escalates_on_empty_table:
  "obtener_ultima_cotizacion hist sim =
    (case escalar hist (get_yahoo_symbol sim) [P_1d, P_5d, P_1mo] of
       (Inl e, ps) \<Rightarrow> (None, map (Pair (get_yahoo_symbol sim)) ps)
     | (Inr df, ps) \<Rightarrow>
         ((case convert_yf_history_to_cotizaciones df sim of [] \<Rightarrow> None | c # _ \<Rightarrow> Some c),
          map (Pair (get_yahoo_symbol sim)) ps)) \<and>
   (hist (get_yahoo_symbol sim) P_1d = Inr [] \<and> hist (get_yahoo_symbol sim) P_5d = Inr [row] \<and>
    \<not> fila_incompleta row \<longrightarrow>
      obtener_ultima_cotizacion hist sim =
        (Some (cotizacion_de_fila sim row),
         [(get_yahoo_symbol sim, P_1d), (get_yahoo_symbol sim, P_5d)]))"
proof (intro conjI impI)
  show "obtener_ultima_cotizacion hist sim =
    (case escalar hist (get_yahoo_symbol sim) [P_1d, P_5d, P_1mo] of
       (Inl e, ps) \<Rightarrow> (None, map (Pair (get_yahoo_symbol sim)) ps)
     | (Inr df, ps) \<Rightarrow>
         ((case convert_yf_history_to_cotizaciones df sim of [] \<Rightarrow> None | c # _ \<Rightarrow> Some c),
          map (Pair (get_yahoo_symbol sim)) ps))"
    unfolding obtener_ultima_cotizacion_def simbolo_yahoo_ultima_eq
    by (rule ultima_con_simbolo_escalar)
next
  assume "hist (get_yahoo_symbol sim) P_1d = Inr [] \<and>
    hist (get_yahoo_symbol sim) P_5d = Inr [row] \<and> \<not> fila_incompleta row"
  then show "obtener_ultima_cotizacion hist sim =
        (Some (cotizacion_de_fila sim row),
         [(get_yahoo_symbol sim, P_1d), (get_yahoo_symbol sim, P_5d)])"
    unfolding obtener_ultima_cotizacion_def simbolo_yahoo_ultima_eq
    by (simp add: ultima_5d)
qed

theorem ultima_escalates_on_empty_table_witness:
  "hist_5d (get_yahoo_symbol ''GGAL'') P_1d = Inr [] \<and>
   hist_5d (get_yahoo_symbol ''GGAL'') P_5d = Inr [fila_completa 0 100] \<and>
   \<not> fila_incompleta (fila_completa 0 100) \<and>
   obtener_ultima_cotizacion hist_5d ''GGAL'' =
     (Some (cotizacion_de_fila ''GGAL'' (fila_completa 0 100)),
      [(''GGAL.BA'', P_1d), (''GGAL.BA'', P_5d)])"
proof -
  have y: "get_yahoo_symbol ''GGAL'' = ''GGAL.BA''"
    by (simp add: get_yahoo_symbol_def SIMBOLOS_MAPPING_def)
  have h: "hist_5d (get_yahoo_symbol ''GGAL'') P_1d = Inr [] \<and>
      hist_5d (get_yahoo_symbol ''GGAL'') P_5d = Inr [fila_completa 0 100] \<and>
      \<not> fila_incompleta (fila_completa 0 100)"
    by (simp add: hist_5d_def fila_incompleta_def fila_completa_def)
  with ultima_escalates_on_empty_table [of hist_5d "''GGAL''" "fila_completa 0 100"]
  have "obtener_ultima_cotizacion hist_5d ''GGAL'' =
     (Some (cotizacion_de_fila ''GGAL'' (fila_completa 0 100)),
      [(get_yahoo_symbol ''GGAL'', P_1d), (get_yahoo_symbol ''GGAL'', P_5d)])"
    by blast
  with h show ?thesis by (simp add: y)
qed

text \<open>
  C1, as the claim states it, fails: here the 1-day table has one row without a close, so
  it yields no bar after normalization, and the 5-day table yields one bar. The claim has
  the 5-day bar returned; the code stops at the 1-day window and returns absent.
\<close>

theorem ultima_stops_at_unusable_1d_table:
  "convert_yf_history_to_cotizaciones [fila_sin_cierre 0 100] ''GGAL'' = [] \<and>
   hist_1d_sin_cierre ''GGAL.BA'' P_5d = Inr [fila_completa 0 100] \<and>
   convert_yf_history_to_cotizaciones [fila_completa 0 100] ''GGAL'' =
     [cotizacion_de_fila ''GGAL'' (fila_completa 0 100)] \<and>
   obtener_ultima_cotizacion hist_1d_sin_cierre ''GGAL'' = (None, [(''GGAL.BA'', P_1d)])"
proof -
  have y: "simbolo_yahoo_ultima ''GGAL'' = ''GGAL.BA''"
    by (simp add: simbolo_yahoo_ultima_eq get_yahoo_symbol_def SIMBOLOS_MAPPING_def)
  have a: "convert_yf_history_to_cotizaciones [fila_sin_cierre 0 100] ''GGAL'' = []"
    by (simp add: convert_eq fila_incompleta_def fila_sin_cierre_def)
  have b: "convert_yf_history_to_cotizaciones [fila_completa 0 100] ''GGAL'' =
     [cotizacion_de_fila ''GGAL'' (fila_completa 0 100)]"
    by (simp add: convert_eq fila_incompleta_def fila_completa_def)
  have c: "obtener_ultima_cotizacion hist_1d_sin_cierre ''GGAL'' = (None, [(''GGAL.BA'', P_1d)])"
    by (simp add: obtener_ultima_cotizacion_def y ultima_con_simbolo_def hist_1d_sin_cierre_def
        primera_cotizacion_def a)
  from a b c show ?thesis by (simp add: hist_1d_sin_cierre_def)
qed

text \<open>
  C10. The condition of the inline \<^verbatim>\<open>YPF\<close> adjustment is never true, because the table
  already resolves \<^verbatim>\<open>YPF\<close> to \<^verbatim>\<open>YPFD.BA\<close>. So the provider symbol used by
  \<^verbatim>\<open>obtener_ultima_cotizacion\<close> is that of \<^verbatim>\<open>_get_yahoo_symbol\<close> for every input, and the
  operation equals the one without the adjustment, in its result and in its provider calls.
\<close>

theorem ypf_adjustment_never_fires:
  "\<not> (sim = ''YPF'' \<and> get_yahoo_symbol sim = ''YPF.BA'') \<and>
   simbolo_yahoo_ultima sim = get_yahoo_symbol sim \<and>
   obtener_ultima_cotizacion hist sim = obtener_ultima_cotizacion_sin_ajuste hist sim"
  by (auto simp: obtener_ultima_cotizacion_def obtener_ultima_cotizacion_sin_ajuste_def
      simbolo_yahoo_ultima_eq get_yahoo_symbol_YPF)

theorem ypf_adjustment_never_fires_witness:
  "simbolo_yahoo_ultima ''YPF'' = ''YPFD.BA'' \<and>
   obtener_ultima_cotizacion hist_5d ''YPF'' = obtener_ultima_cotizacion_sin_ajuste hist_5d ''YPF''"
  using ypf_adjustment_never_fires [of "''YPF''" hist_5d]
  by (simp add: get_yahoo_symbol_def SIMBOLOS_MAPPING_def)

text \<open>
  C5. \<^verbatim>\<open>obtener_cotizaciones_multiples\<close> is total (it has no error result); its dictionary
  has exactly the input symbols as keys, each mapped to what \<^verbatim>\<open>obtener_ultima_cotizacion\<close>
  returns for that symbol alone (absent for a failed symbol, the bar for a successful one);
  and its provider calls are, symbol after symbol in input order, the calls of one
  \<^verbatim>\<open>obtener_ultima_cotizacion\<close> per input element, whatever happened for the others.
\<close>

theorem multiples_isolates_symbols:
  "dom (fst (obtener_cotizaciones_multiples hist simbolos)) = set simbolos \<and>
   (\<forall>s \<in> set simbolos. fst (obtener_cotizaciones_multiples hist simbolos) s =
      Some (fst (obtener_ultima_cotizacion hist s))) \<and>
   snd (obtener_cotizaciones_multiples hist simbolos) =
     concat (map (\<lambda>s. snd (obtener_ultima_cotizacion hist s)) simbolos)"
  by (auto simp: obtener_cotizaciones_multiples_def multiples_loop_eq dom_def)

theorem multiples_isolates_symbols_witness:
  "''A'' \<in> set [''A'', ''B''] \<and> ''B'' \<in> set [''A'', ''B''] \<and>
   fst (obtener_cotizaciones_multiples hist_A_falla [''A'', ''B'']) ''A'' = Some None \<and>
   fst (obtener_cotizaciones_multiples hist_A_falla [''A'', ''B'']) ''B'' =
     Some (Some (cotizacion_de_fila ''B'' (fila_completa 0 100))) \<and>
   snd (obtener_cotizaciones_multiples hist_A_falla [''A'', ''B'']) =
     [(''A.BA'', P_1d), (''B.BA'', P_1d)]"
proof -
  have ya: "simbolo_yahoo_ultima ''A'' = ''A.BA''" and yb: "simbolo_yahoo_ultima ''B'' = ''B.BA''"
    by (simp_all add: simbolo_yahoo_ultima_eq get_yahoo_symbol_def SIMBOLOS_MAPPING_def
        endswith_def)
  have a: "obtener_ultima_cotizacion hist_A_falla ''A'' = (None, [(''A.BA'', P_1d)])"
    by (simp add: obtener_ultima_cotizacion_def ya ultima_con_simbolo_def hist_A_falla_def)
  have b: "obtener_ultima_cotizacion hist_A_falla ''B'' =
      (Some (cotizacion_de_fila ''B'' (fila_completa 0 100)), [(''B.BA'', P_1d)])"
    by (simp add: obtener_ultima_cotizacion_def yb ultima_con_simbolo_def hist_A_falla_def
        primera_cotizacion_def convert_eq fila_incompleta_def fila_completa_def)
  from multiples_isolates_symbols [of hist_A_falla "[''A'', ''B'']"] a b
  show ?thesis by simp
qed

section \<open>Properties of historical retrieval\<close>

lemma startswith_append: "startswith (sub @ q) sub"
  by (simp add: startswith_def)

lemma contiene_prefix: "contiene (sub @ q) sub"
proof (cases "sub @ q")
  case Nil
  then show ?thesis by simp
next
  case (Cons c cs)
  have "startswith (sub @ q) sub" by (rule startswith_append)
  with Cons show ?thesis by simp
qed

lemma contiene_append: "contiene (p @ sub @ q) sub"
proof (induction p)
  case Nil
  show ?case by (simp add: contiene_prefix)
next
  case (Cons c p)
  then show ?case by simp
qed

lemma contiene_imp_append: "contiene m sub \<Longrightarrow> \<exists>p q. m = p @ sub @ q"
proof (induction m)
  case Nil
  then show ?case by simp
next
  case (Cons c cs)
  show ?case
  proof (cases "startswith (c # cs) sub")
    case True
    then have "c # cs = [] @ sub @ drop (length sub) (c # cs)"
      unfolding startswith_def by (metis append_Nil append_take_drop_id)
    then show ?thesis by blast
  next
    case False
    with Cons.prems have "contiene cs sub" by simp
    then obtain p q where "cs = p @ sub @ q" using Cons.IH by blast
    then have "c # cs = (c # p) @ sub @ q" by simp
    then show ?thesis by blast
  qed
qed

lemma contiene_iff: "contiene m sub \<longleftrightarrow> (\<exists>p q. m = p @ sub @ q)"
  using contiene_imp_append contiene_append by blast

lemma mensaje_error_yfinance_contiene:
  "contiene (mensaje_error_yfinance y e) y" "contiene (mensaje_error_yfinance y e) e"
proof -
  show "contiene (mensaje_error_yfinance y e) y"
    unfolding mensaje_error_yfinance_def contiene_iff by (metis append.assoc)
  show "contiene (mensaje_error_yfinance y e) e"
    unfolding mensaje_error_yfinance_def contiene_iff by (metis append.assoc append_Nil2)
qed

lemma mensaje_sin_datos_contiene:
  "contiene (mensaje_sin_datos s y) s" "contiene (mensaje_sin_datos s y) y"
proof -
  show "contiene (mensaje_sin_datos s y) s"
    unfolding mensaje_sin_datos_def contiene_iff by (metis append.assoc)
  show "contiene (mensaje_sin_datos s y) y"
    unfolding mensaje_sin_datos_def contiene_iff by (metis append.assoc)
qed

lemma mensaje_no_procesados_contiene:
  "contiene (mensaje_no_procesados s y) s" "contiene (mensaje_no_procesados s y) y"
proof -
  show "contiene (mensaje_no_procesados s y) s"
    unfolding mensaje_no_procesados_def contiene_iff by (metis append.assoc)
  show "contiene (mensaje_no_procesados s y) y"
    unfolding mensaje_no_procesados_def contiene_iff by (metis append.assoc)
qed

lemma obtener_historico_cases:
  "obtener_historico hist_rango ahora sol =
    (case consulta_historico hist_rango ahora sol of
       Inl e \<Rightarrow> respuesta_error (mensaje_error_yfinance (get_yahoo_symbol (sol_simbolo sol)) e) DATA_003
     | Inr df \<Rightarrow>
         if df = [] then
           respuesta_error (mensaje_sin_datos (sol_simbolo sol) (get_yahoo_symbol (sol_simbolo sol))) DATA_002
         else if convert_yf_history_to_cotizaciones df (sol_simbolo sol) = [] then
           respuesta_error (mensaje_no_procesados (sol_simbolo sol) (get_yahoo_symbol (sol_simbolo sol))) DATA_003
         else obtener_historico hist_rango ahora sol)"
  by (simp add: obtener_historico_def consulta_historico_def Let_def split: sum.splits)

text \<open>
  C4, as the code has it. The three failures of \<^verbatim>\<open>obtener_historico\<close> give an error
  response: a provider call that raised gives code \<^verbatim>\<open>DATA_003\<close> and a message carrying the
  provider symbol and the text of the exception; an empty table gives code \<^verbatim>\<open>DATA_002\<close>;
  a table with rows of which none survives normalization gives code \<^verbatim>\<open>DATA_003\<close> again.
  The messages of the last two carry the domain symbol and the provider symbol.
\<close>

theorem historico_error_taxonomy:
  assumes "r = obtener_historico hist_rango ahora sol"
    and "y = get_yahoo_symbol (sol_simbolo sol)"
  shows
    "(\<forall>e. consulta_historico hist_rango ahora sol = Inl e \<longrightarrow>
        estado r = ERROR \<and> codigo_error r = Some DATA_003 \<and>
        mensaje r = Some (mensaje_error_yfinance y e) \<and>
        contiene (mensaje_error_yfinance y e) y \<and> contiene (mensaje_error_yfinance y e) e) \<and>
     (consulta_historico hist_rango ahora sol = Inr [] \<longrightarrow>
        estado r = ERROR \<and> codigo_error r = Some DATA_002 \<and>
        mensaje r = Some (mensaje_sin_datos (sol_simbolo sol) y) \<and>
        contiene (mensaje_sin_datos (sol_simbolo sol) y) (sol_simbolo sol) \<and>
        contiene (mensaje_sin_datos (sol_simbolo sol) y) y) \<and>
     (\<forall>df. consulta_historico hist_rango ahora sol = Inr df \<and> df \<noteq> [] \<and>
        convert_yf_history_to_cotizaciones df (sol_simbolo sol) = [] \<longrightarrow>
        estado r = ERROR \<and> codigo_error r = Some DATA_003 \<and>
        mensaje r = Some (mensaje_no_procesados (sol_simbolo sol) y) \<and>
        contiene (mensaje_no_procesados (sol_simbolo sol) y) (sol_simbolo sol) \<and>
        contiene (mensaje_no_procesados (sol_simbolo sol) y) y)"
proof (intro conjI allI impI)
  fix e assume "consulta_historico hist_rango ahora sol = Inl e"
  then have "r = respuesta_error (mensaje_error_yfinance y e) DATA_003"
    using assms obtener_historico_cases [of hist_rango ahora sol] by simp
  then show "estado r = ERROR" "codigo_error r = Some DATA_003"
    "mensaje r = Some (mensaje_error_yfinance y e)"
    by (simp_all add: respuesta_error_def)
  show "contiene (mensaje_error_yfinance y e) y" "contiene (mensaje_error_yfinance y e) e"
    by (rule mensaje_error_yfinance_contiene)+
next
  assume "consulta_historico hist_rango ahora sol = Inr []"
  then have "r = respuesta_error (mensaje_sin_datos (sol_simbolo sol) y) DATA_002"
    using assms obtener_historico_cases [of hist_rango ahora sol] by simp
  then show "estado r = ERROR" "codigo_error r = Some DATA_002"
    "mensaje r = Some (mensaje_sin_datos (sol_simbolo sol) y)"
    by (simp_all add: respuesta_error_def)
  show "contiene (mensaje_sin_datos (sol_simbolo sol) y) (sol_simbolo sol)"
    "contiene (mensaje_sin_datos (sol_simbolo sol) y) y"
    by (rule mensaje_sin_datos_contiene)+
next
  fix df
  assume "consulta_historico hist_rango ahora sol = Inr df \<and> df \<noteq> [] \<and>
        convert_yf_history_to_cotizaciones df (sol_simbolo sol) = []"
  then have "r = respuesta_error (mensaje_no_procesados (sol_simbolo sol) y) DATA_003"
    using assms obtener_historico_cases [of hist_rango ahora sol] by simp
  then show "estado r = ERROR" "codigo_error r = Some DATA_003"
    "mensaje r = Some (mensaje_no_procesados (sol_simbolo sol) y)"
    by (simp_all add: respuesta_error_def)
  show "contiene (mensaje_no_procesados (sol_simbolo sol) y) (sol_simbolo sol)"
    "contiene (mensaje_no_procesados (sol_simbolo sol) y) y"
    by (rule mensaje_no_procesados_contiene)+
qed

lemma yahoo_merval: "get_yahoo_symbol ''MERVAL'' = ''^MERV''"
  by (simp add: get_yahoo_symbol_def SIMBOLOS_MAPPING_def)

theorem historico_error_taxonomy_witness:
  "consulta_historico hist_rango_falla 0 solicitud_merval = Inl ''timeout'' \<and>
   codigo_error (obtener_historico hist_rango_falla 0 solicitud_merval) = Some DATA_003 \<and>
   contiene (mensaje_error_yfinance ''^MERV'' ''timeout'') ''^MERV'' \<and>
   consulta_historico hist_rango_vacio 0 solicitud_merval = Inr [] \<and>
   codigo_error (obtener_historico hist_rango_vacio 0 solicitud_merval) = Some DATA_002 \<and>
   contiene (mensaje_sin_datos ''MERVAL'' ''^MERV'') ''MERVAL'' \<and>
   contiene (mensaje_sin_datos ''MERVAL'' ''^MERV'') ''^MERV'' \<and>
   consulta_historico hist_rango_sin_cierre 0 solicitud_merval = Inr [fila_sin_cierre 0 100] \<and>
   convert_yf_history_to_cotizaciones [fila_sin_cierre 0 100] ''MERVAL'' = [] \<and>
   codigo_error (obtener_historico hist_rango_sin_cierre 0 solicitud_merval) = Some DATA_003 \<and>
   contiene (mensaje_no_procesados ''MERVAL'' ''^MERV'') ''MERVAL'' \<and>
   contiene (mensaje_no_procesados ''MERVAL'' ''^MERV'') ''^MERV''"
proof -
  have s: "sol_simbolo solicitud_merval = ''MERVAL''"
    by (simp add: solicitud_merval_def)
  have y: "''^MERV'' = get_yahoo_symbol (sol_simbolo solicitud_merval)"
    by (simp add: s yahoo_merval)
  have a: "consulta_historico hist_rango_falla 0 solicitud_merval = Inl ''timeout''"
    by (simp add: consulta_historico_def hist_rango_falla_def)
  have b: "consulta_historico hist_rango_vacio 0 solicitud_merval = Inr []"
    by (simp add: consulta_historico_def hist_rango_vacio_def)
  have c: "consulta_historico hist_rango_sin_cierre 0 solicitud_merval = Inr [fila_sin_cierre 0 100]"
    by (simp add: consulta_historico_def hist_rango_sin_cierre_def)
  have d: "convert_yf_history_to_cotizaciones [fila_sin_cierre 0 100] ''MERVAL'' = []"
    by (simp add: convert_yf_history_to_cotizaciones_def fila_incompleta_def fila_sin_cierre_def)
  from historico_error_taxonomy [OF refl y, of hist_rango_falla 0] a
  have 1: "codigo_error (obtener_historico hist_rango_falla 0 solicitud_merval) = Some DATA_003 \<and>
      contiene (mensaje_error_yfinance ''^MERV'' ''timeout'') ''^MERV''"
    by blast
  from historico_error_taxonomy [OF refl y, of hist_rango_vacio 0] b
  have 2: "codigo_error (obtener_historico hist_rango_vacio 0 solicitud_merval) = Some DATA_002 \<and>
      contiene (mensaje_sin_datos ''MERVAL'' ''^MERV'') ''MERVAL'' \<and>
      contiene (mensaje_sin_datos ''MERVAL'' ''^MERV'') ''^MERV''"
    unfolding s by blast
  from historico_error_taxonomy [OF refl y, of hist_rango_sin_cierre 0] c d
  have 3: "codigo_error (obtener_historico hist_rango_sin_cierre 0 solicitud_merval) = Some DATA_003 \<and>
      contiene (mensaje_no_procesados ''MERVAL'' ''^MERV'') ''MERVAL'' \<and>
      contiene (mensaje_no_procesados ''MERVAL'' ''^MERV'') ''^MERV''"
    unfolding s by blast
  from a b c d 1 2 3 show ?thesis by blast
qed

text \<open>
  C4, as the claim states it, fails for the request \<^verbatim>\<open>MERVAL\<close>: the provider call that
  raises and the table whose only row has no close get the same error code, so the three
  failures do not have three distinct kinds; and the message of the first carries the
  provider symbol \<^verbatim>\<open>^MERV\<close> but not the domain symbol \<^verbatim>\<open>MERVAL\<close>.
\<close>

theorem historico_error_kinds_coincide:
  "consulta_historico hist_rango_falla 0 solicitud_merval = Inl ''timeout'' \<and>
   consulta_historico hist_rango_sin_cierre 0 solicitud_merval = Inr [fila_sin_cierre 0 100] \<and>
   convert_yf_history_to_cotizaciones [fila_sin_cierre 0 100] ''MERVAL'' = [] \<and>
   codigo_error (obtener_historico hist_rango_falla 0 solicitud_merval) =
     codigo_error (obtener_historico hist_rango_sin_cierre 0 solicitud_merval) \<and>
   mensaje (obtener_historico hist_rango_falla 0 solicitud_merval) =
     Some (mensaje_error_yfinance ''^MERV'' ''timeout'') \<and>
   \<not> contiene (mensaje_error_yfinance ''^MERV'' ''timeout'') ''MERVAL''"
proof -
  have s: "sol_simbolo solicitud_merval = ''MERVAL''"
    by (simp add: solicitud_merval_def)
  have a: "consulta_historico hist_rango_falla 0 solicitud_merval = Inl ''timeout''"
    by (simp add: consulta_historico_def hist_rango_falla_def)
  have c: "consulta_historico hist_rango_sin_cierre 0 solicitud_merval = Inr [fila_sin_cierre 0 100]"
    by (simp add: consulta_historico_def hist_rango_sin_cierre_def)
  have d: "convert_yf_history_to_cotizaciones [fila_sin_cierre 0 100] ''MERVAL'' = []"
    by (simp add: convert_yf_history_to_cotizaciones_def fila_incompleta_def fila_sin_cierre_def)
  have r1: "obtener_historico hist_rango_falla 0 solicitud_merval =
      respuesta_error (mensaje_error_yfinance ''^MERV'' ''timeout'') DATA_003"
    using obtener_historico_cases [of hist_rango_falla 0 solicitud_merval]
    by (simp add: a s yahoo_merval)
  have r2: "obtener_historico hist_rango_sin_cierre 0 solicitud_merval =
      respuesta_error (mensaje_no_procesados ''MERVAL'' ''^MERV'') DATA_003"
    using obtener_historico_cases [of hist_rango_sin_cierre 0 solicitud_merval]
    by (simp add: c d s yahoo_merval)
  have n: "\<not> contiene (mensaje_error_yfinance ''^MERV'' ''timeout'') ''MERVAL''"
    by (simp add: mensaje_error_yfinance_def i_acute_def startswith_def)
  from a c d n show ?thesis
    by (simp add: r1 r2 respuesta_error_def)
qed

section \<open>Properties of the instrument lookup\<close>

lemma cache_alcanzable_clasificado:
  assumes "cache_alcanzable cache" and "cache s = Some a"
  shows "af_tipo a = determinar_tipo s (get_yahoo_symbol s) \<and>
         af_mercado a = determinar_mercado (get_yahoo_symbol s) \<and>
         af_moneda a = determinar_moneda (determinar_mercado (get_yahoo_symbol s)) \<and>
         af_simbolo_yahoo a = Some (get_yahoo_symbol s)"
  using assms
proof (induction arbitrary: s a rule: cache_alcanzable.induct)
  case inicial
  then show ?case by simp
next
  case (paso cache tinfo hist sim)
  show ?case
  proof (cases "cache sim")
    case (Some b)
    with paso.prems have "cache s = Some a" by (simp add: obtener_activo_def)
    then show ?thesis by (rule paso.IH)
  next
    case None
    show ?thesis
    proof (cases "obtener_info tinfo hist (get_yahoo_symbol sim)")
      case none: None
      with None paso.prems have "cache s = Some a" by (simp add: obtener_activo_def)
      then show ?thesis by (rule paso.IH)
    next
      case (Some info)
      show ?thesis
      proof (cases "s = sim")
        case True
        with None Some paso.prems show ?thesis
          by (auto simp: obtener_activo_def Let_def)
      next
        case False
        with None Some paso.prems have "cache s = Some a"
          by (simp add: obtener_activo_def Let_def)
        then show ?thesis by (rule paso.IH)
      qed
    qed
  qed
qed

lemma obtener_activo_Some:
  assumes "cache_alcanzable cache" and "fst (obtener_activo tinfo hist cache s) = Some a"
  shows "af_tipo a = determinar_tipo s (get_yahoo_symbol s) \<and>
         af_mercado a = determinar_mercado (get_yahoo_symbol s) \<and>
         af_moneda a = determinar_moneda (determinar_mercado (get_yahoo_symbol s)) \<and>
         af_simbolo_yahoo a = Some (get_yahoo_symbol s)"
proof -
  have "snd (obtener_activo tinfo hist cache s) s = Some a"
    using assms(2) by (auto simp: obtener_activo_def Let_def split: option.splits)
  moreover have "cache_alcanzable (snd (obtener_activo tinfo hist cache s))"
    using assms(1) by (rule cache_alcanzable.paso)
  ultimately show ?thesis by (rule cache_alcanzable_clasificado [rotated])
qed

text \<open>
  C9. Whatever the provider answers and whatever the client has looked up before, when
  \<^verbatim>\<open>obtener_activo\<close> returns an instrument for \<^verbatim>\<open>MERVAL\<close> (freshly built or from the cache),
  its type is \<^verbatim>\<open>BONO\<close>, its market \<^verbatim>\<open>NYSE\<close>, its currency \<^verbatim>\<open>USD\<close> and its provider symbol
  \<^verbatim>\<open>^MERV\<close>.
\<close>

theorem merval_clasificado_bono_nyse_usd:
  assumes "cache_alcanzable cache"
    and "fst (obtener_activo tinfo hist cache ''MERVAL'') = Some a"
  shows "af_tipo a = BONO \<and> af_mercado a = NYSE \<and> af_moneda a = USD \<and>
         af_simbolo_yahoo a = Some ''^MERV''"
  using obtener_activo_Some [OF assms]
  by (simp add: yahoo_merval determinar_tipo_def determinar_mercado_def determinar_moneda_def
      endswith_def startswith_def)

lemma obtener_activo_merval:
  "obtener_activo tinfo_merval hist_5d Map.empty ''MERVAL'' =
     (Some activo_merval, [''MERVAL'' \<mapsto> activo_merval])"
  by (simp add: obtener_activo_def yahoo_merval obtener_info_def tinfo_merval_def Let_def
      determinar_tipo_def determinar_mercado_def determinar_moneda_def determinar_denominacion_def
      verdadero_def endswith_def startswith_def activo_merval_def)

theorem merval_clasificado_bono_nyse_usd_witness:
  "cache_alcanzable Map.empty \<and>
   fst (obtener_activo tinfo_merval hist_5d Map.empty ''MERVAL'') = Some activo_merval \<and>
   af_tipo activo_merval = BONO \<and> af_mercado activo_merval = NYSE \<and>
   af_moneda activo_merval = USD \<and> af_simbolo_yahoo activo_merval = Some ''^MERV''"
proof -
  have r: "cache_alcanzable Map.empty"
    by (rule cache_alcanzable.inicial)
  have f: "fst (obtener_activo tinfo_merval hist_5d Map.empty ''MERVAL'') = Some activo_merval"
    by (simp add: obtener_activo_merval)
  from merval_clasificado_bono_nyse_usd [OF r f] r f show ?thesis by simp
qed

section \<open>Properties of the returns\<close>

lemma cambios_length: "length (cambios lib prev cs) = length cs"
  by (induction cs arbitrary: prev) simp_all

lemma ffill_length: "length (ffill prev cs) = length cs"
  by (induction cs arbitrary: prev) simp_all

lemma pct_change_length: "length (pct_change lib cs) = length cs"
  by (simp add: pct_change_def cambios_length ffill_length)








lemma rendimientos_dos_barras_ej:
  "rendimientos_diarios lib_exacta [barra 0 100, barra 1 110] = [NoNumero, Finito 10]"
  by (simp add: rendimientos_diarios_def columna_cierre_def pct_change_def barra_def
      cotizacion_de_fila_def fila_completa_def redondear_def lib_exacta_def)





section \<open>Properties of beta\<close>

lemma intersection_props:
  "distinct (intersection a b)" "set (intersection a b) = set a \<inter> set b"
  by (auto simp: intersection_def unico_def)

lemma length_intersection:
  "length (intersection a b) = card (set a \<inter> set b)"
  using distinct_card [OF intersection_props(1), of a b] by (simp add: intersection_props(2))

lemma count_list_filter:
  "count_list (filter P xs) c = (if P c then count_list xs c else 0)"
  by (induction xs) auto

lemma count_list_loc:
  "distinct fechas \<Longrightarrow>
   count_list (loc df fechas) c = (if timestamp c \<in> set fechas then count_list df c else 0)"
proof (induction fechas)
  case Nil
  then show ?case by (simp add: loc_def)
next
  case (Cons t ts)
  have "loc df (t # ts) = filter (\<lambda>c. timestamp c = t) df @ loc df ts"
    by (simp add: loc_def)
  with Cons show ?case by (auto simp: count_list_filter)
qed

lemma count_list_filas_alineadas:
  "count_list (loc a (fechas_comunes_de a b)) c = count_list (filas_comunes a b) c"
  "count_list (loc b (fechas_comunes_de a b)) c = count_list (filas_comunes b a) c"
proof -
  have d: "distinct (fechas_comunes_de a b)"
    by (simp add: fechas_comunes_de_def intersection_props(1))
  have s: "set (fechas_comunes_de a b) = set (map timestamp a) \<inter> set (map timestamp b)"
    by (simp add: fechas_comunes_de_def intersection_props(2))
  have za: "count_list a c = 0" if "timestamp c \<notin> set (map timestamp a)"
    using that by (auto simp: count_list_0_iff)
  have zb: "count_list b c = 0" if "timestamp c \<notin> set (map timestamp b)"
    using that by (auto simp: count_list_0_iff)
  show "count_list (loc a (fechas_comunes_de a b)) c = count_list (filas_comunes a b) c"
    unfolding count_list_loc [OF d] s filas_comunes_def count_list_filter
    using za by auto
  show "count_list (loc b (fechas_comunes_de a b)) c = count_list (filas_comunes b a) c"
    unfolding count_list_loc [OF d] s filas_comunes_def count_list_filter
    using zb by auto
qed

lemma filter_timestamp_unico:
  assumes "distinct (map timestamp df)" and "t \<in> set (map timestamp df)"
  shows "\<exists>c. filter (\<lambda>c. timestamp c = t) df = [c] \<and> timestamp c = t \<and> c \<in> set df"
  using assms
proof (induction df)
  case Nil
  then show ?case by simp
next
  case (Cons d df)
  show ?case
  proof (cases "timestamp d = t")
    case True
    with Cons.prems have "t \<notin> set (map timestamp df)" by auto
    then have "filter (\<lambda>c. timestamp c = t) df = []"
      by (auto simp: filter_empty_conv)
    with True show ?thesis by auto
  next
    case False
    with Cons.prems have "distinct (map timestamp df)" "t \<in> set (map timestamp df)" by auto
    from Cons.IH [OF this] False show ?thesis by auto
  qed
qed

lemma filter_misma_fecha:
  assumes "distinct (map timestamp df)" and "d \<in> set df"
  shows "filter (\<lambda>c. timestamp c = timestamp d) df = [d]"
proof -
  from assms(2) have "timestamp d \<in> set (map timestamp df)" by simp
  from filter_timestamp_unico [OF assms(1) this]
  obtain c where c: "filter (\<lambda>c. timestamp c = timestamp d) df = [c]"
    "timestamp c = timestamp d" "c \<in> set df" by blast
  from assms(1) have "inj_on timestamp (set df)" by (simp add: distinct_map)
  with c(2,3) assms(2) have "c = d" by (auto dest: inj_onD)
  with c(1) show ?thesis by simp
qed

lemma loc_sublista:
  assumes "distinct (map timestamp df)"
  shows "set xs \<subseteq> set df \<Longrightarrow> loc df (map timestamp xs) = xs"
proof (induction xs)
  case Nil
  then show ?case by (simp add: loc_def)
next
  case (Cons x xs)
  then have "x \<in> set df" by simp
  from filter_misma_fecha [OF assms this] Cons show ?case by (simp add: loc_def)
qed

lemma unico_distinct: "distinct xs \<Longrightarrow> unico xs = xs"
proof -
  assume "distinct xs"
  then have "distinct (rev xs)" by simp
  then have r: "remdups (rev xs) = rev xs" by (rule distinct_remdups_id)
  show ?thesis unfolding unico_def r by (rule rev_rev_ident)
qed

lemma timestamps_filas_comunes:
  "map timestamp (filas_comunes df otra) =
     filter (\<lambda>t. t \<in> set (map timestamp otra)) (map timestamp df)"
  by (simp add: filas_comunes_def filter_map comp_def)

lemma filas_alineadas_ordenadas:
  assumes "sorted_wrt (<) (map timestamp a)" and "sorted_wrt (<) (map timestamp b)"
  shows "loc a (fechas_comunes_de a b) = filas_comunes a b"
    and "loc b (fechas_comunes_de a b) = filas_comunes b a"
    and "length (fechas_comunes_de a b) = length (filas_comunes a b)"
proof -
  from assms have da: "distinct (map timestamp a)" and db: "distinct (map timestamp b)"
    and sa: "sorted (map timestamp a)" and sb: "sorted (map timestamp b)"
    by (simp_all add: strict_sorted_iff)
  have f: "fechas_comunes_de a b = map timestamp (filas_comunes a b)"
    by (simp add: fechas_comunes_de_def intersection_def unico_distinct [OF da]
        timestamps_filas_comunes)
  show "loc a (fechas_comunes_de a b) = filas_comunes a b"
    unfolding f by (rule loc_sublista [OF da]) (auto simp: filas_comunes_def)
  show "length (fechas_comunes_de a b) = length (filas_comunes a b)"
    unfolding f by simp
  let ?fa = "filter (\<lambda>t. t \<in> set (map timestamp b)) (map timestamp a)"
  let ?fb = "filter (\<lambda>t. t \<in> set (map timestamp a)) (map timestamp b)"
  have "sorted ?fa" "distinct ?fa" "sorted ?fb" "distinct ?fb"
    using da db sa sb by (simp_all add: sorted_wrt_filter)
  moreover have "set ?fa = set ?fb" by auto
  ultimately have "?fa = ?fb" by (rule sorted_distinct_set_unique)
  then have g: "fechas_comunes_de a b = map timestamp (filas_comunes b a)"
    unfolding f timestamps_filas_comunes .
  show "loc b (fechas_comunes_de a b) = filas_comunes b a"
    unfolding g by (rule loc_sublista [OF db]) (auto simp: filas_comunes_def)
qed

lemma ffill_Finito: "ffill p (map (\<lambda>c. Finito (f c)) xs) = map (\<lambda>c. Finito (f c)) xs"
  by (induction xs arbitrary: p) simp_all

lemma cambios_spec:
  "dropna (zip (map timestamp xs)
      (cambios lib (Finito (cierre p)) (map (\<lambda>c. Finito (cierre c)) xs))) =
   rendimientos_spec lib (p # xs)"
proof (induction xs arbitrary: p)
  case Nil
  then show ?case by (simp add: dropna_def)
next
  case (Cons x xs)
  from Cons [of x] show ?case by (simp add: dropna_def Let_def)
qed

lemma rendimientos_en_spec:
  "rendimientos_en lib df fechas = rendimientos_spec lib (loc df fechas)"
proof (cases "loc df fechas")
  case Nil
  then show ?thesis
    by (simp add: rendimientos_en_def serie_cierre_def pct_change_serie_def pct_change_def
        dropna_def)
next
  case (Cons c cs)
  have "rendimientos_en lib df fechas =
      dropna (zip (map timestamp (c # cs))
        (cambios lib NoNumero (map (\<lambda>c. Finito (cierre c)) (c # cs))))"
    unfolding rendimientos_en_def pct_change_serie_def pct_change_def Cons serie_cierre_def
    by (simp only: map_map comp_def fst_conv snd_conv ffill_Finito)
  also have "\<dots> = dropna (zip (map timestamp cs)
        (cambios lib (Finito (cierre c)) (map (\<lambda>c. Finito (cierre c)) cs)))"
    by (simp add: dropna_def)
  also have "\<dots> = rendimientos_spec lib (c # cs)" by (rule cambios_spec)
  finally show ?thesis by (simp add: Cons)
qed

lemma calcular_beta_sin_tabla:
  "tabla_para_beta hr ahora sim desde hasta = None \<or>
   tabla_para_beta hr ahora indice_ref desde hasta = None \<Longrightarrow>
   calcular_beta lib hr ahora sim indice_ref desde hasta = None"
  by (auto simp: calcular_beta_def tabla_para_beta_def Let_def split: option.splits)

lemma calcular_beta_con_tablas:
  assumes "tabla_para_beta hr ahora sim desde hasta = Some a"
    and "tabla_para_beta hr ahora indice_ref desde hasta = Some b"
  shows "calcular_beta lib hr ahora sim indice_ref desde hasta =
    (if length (fechas_comunes_de a b) < 30 then None
     else if var lib (map snd (rendimientos_spec lib (loc b (fechas_comunes_de a b)))) = Finito 0
       then None
     else Some (f_div lib
       (cov lib (rendimientos_spec lib (loc a (fechas_comunes_de a b)))
          (rendimientos_spec lib (loc b (fechas_comunes_de a b))))
       (var lib (map snd (rendimientos_spec lib (loc b (fechas_comunes_de a b)))))))"
  using assms
  by (simp add: calcular_beta_def tabla_para_beta_def beta_de_tablas_def Let_def
      fechas_comunes_de_def rendimientos_en_spec)

text \<open>
  C6. \<^verbatim>\<open>calcular_beta\<close> returns absent when one of the two tables could not be retrieved.
  With both tables, the common dates are the timestamps that both tables have, each once,
  and the rows taken from a table are its rows at a common timestamp, each as often as the
  table has it. Fewer than 30 common dates give absent, whatever the rows hold. Otherwise
  the result is absent when the variance of the returns of the index, as the library
  returns it, is zero, and else it is the covariance of the two series of returns divided
  by that variance; a return is the quotient of a close by the close of the row before it,
  minus 1, and a return that is not a number is dropped. For two tables in chronological
  order the rows taken are the rows of each table whose timestamp the other table has too,
  in their order, and the result is beta in the words of the specification. This holds for
  every rounding and every library.
\<close>

theorem calcular_beta_spec:
  "(tabla_para_beta hr ahora sim desde hasta = None \<or>
    tabla_para_beta hr ahora indice_ref desde hasta = None \<longrightarrow>
      calcular_beta lib hr ahora sim indice_ref desde hasta = None) \<and>
   (tabla_para_beta hr ahora sim desde hasta = Some a \<and>
    tabla_para_beta hr ahora indice_ref desde hasta = Some b \<longrightarrow>
      length (fechas_comunes_de a b) = card (set (map timestamp a) \<inter> set (map timestamp b)) \<and>
      (\<forall>c. count_list (loc a (fechas_comunes_de a b)) c = count_list (filas_comunes a b) c) \<and>
      (\<forall>c. count_list (loc b (fechas_comunes_de a b)) c = count_list (filas_comunes b a) c) \<and>
      (card (set (map timestamp a) \<inter> set (map timestamp b)) < 30 \<longrightarrow>
         calcular_beta lib hr ahora sim indice_ref desde hasta = None) \<and>
      (30 \<le> card (set (map timestamp a) \<inter> set (map timestamp b)) \<longrightarrow>
         calcular_beta lib hr ahora sim indice_ref desde hasta =
           (if var lib (map snd (rendimientos_spec lib (loc b (fechas_comunes_de a b)))) =
               Finito 0
            then None
            else Some (f_div lib
              (cov lib (rendimientos_spec lib (loc a (fechas_comunes_de a b)))
                 (rendimientos_spec lib (loc b (fechas_comunes_de a b))))
              (var lib (map snd (rendimientos_spec lib (loc b (fechas_comunes_de a b)))))))) \<and>
      (sorted_wrt (<) (map timestamp a) \<and> sorted_wrt (<) (map timestamp b) \<longrightarrow>
         loc a (fechas_comunes_de a b) = filas_comunes a b \<and>
         loc b (fechas_comunes_de a b) = filas_comunes b a \<and>
         calcular_beta lib hr ahora sim indice_ref desde hasta = beta_spec lib a b))"
proof (intro conjI impI)
  assume "tabla_para_beta hr ahora sim desde hasta = None \<or>
    tabla_para_beta hr ahora indice_ref desde hasta = None"
  then show "calcular_beta lib hr ahora sim indice_ref desde hasta = None"
    by (rule calcular_beta_sin_tabla)
next
  show "length (fechas_comunes_de a b) = card (set (map timestamp a) \<inter> set (map timestamp b))"
    unfolding fechas_comunes_de_def by (rule length_intersection)
next
  show "\<forall>c. count_list (loc a (fechas_comunes_de a b)) c = count_list (filas_comunes a b) c"
    using count_list_filas_alineadas(1) by blast
next
  show "\<forall>c. count_list (loc b (fechas_comunes_de a b)) c = count_list (filas_comunes b a) c"
    using count_list_filas_alineadas(2) by blast
next
  assume t: "tabla_para_beta hr ahora sim desde hasta = Some a \<and>
    tabla_para_beta hr ahora indice_ref desde hasta = Some b"
  assume "card (set (map timestamp a) \<inter> set (map timestamp b)) < 30"
  then have "length (fechas_comunes_de a b) < 30"
    by (simp add: fechas_comunes_de_def length_intersection)
  with t show "calcular_beta lib hr ahora sim indice_ref desde hasta = None"
    by (simp add: calcular_beta_con_tablas)
next
  assume t: "tabla_para_beta hr ahora sim desde hasta = Some a \<and>
    tabla_para_beta hr ahora indice_ref desde hasta = Some b"
  assume "30 \<le> card (set (map timestamp a) \<inter> set (map timestamp b))"
  then have "\<not> length (fechas_comunes_de a b) < 30"
    by (simp add: fechas_comunes_de_def length_intersection)
  with t show "calcular_beta lib hr ahora sim indice_ref desde hasta =
           (if var lib (map snd (rendimientos_spec lib (loc b (fechas_comunes_de a b)))) =
               Finito 0
            then None
            else Some (f_div lib
              (cov lib (rendimientos_spec lib (loc a (fechas_comunes_de a b)))
                 (rendimientos_spec lib (loc b (fechas_comunes_de a b))))
              (var lib (map snd (rendimientos_spec lib (loc b (fechas_comunes_de a b)))))))"
    by (simp add: calcular_beta_con_tablas)
next
  assume s: "sorted_wrt (<) (map timestamp a) \<and> sorted_wrt (<) (map timestamp b)"
  then show "loc a (fechas_comunes_de a b) = filas_comunes a b"
    and "loc b (fechas_comunes_de a b) = filas_comunes b a"
    using filas_alineadas_ordenadas by blast+
  assume t: "tabla_para_beta hr ahora sim desde hasta = Some a \<and>
    tabla_para_beta hr ahora indice_ref desde hasta = Some b"
  from s have e: "loc a (fechas_comunes_de a b) = filas_comunes a b"
    "loc b (fechas_comunes_de a b) = filas_comunes b a"
    "length (fechas_comunes_de a b) = length (filas_comunes a b)"
    using filas_alineadas_ordenadas by blast+
  from t show "calcular_beta lib hr ahora sim indice_ref desde hasta = beta_spec lib a b"
    by (simp add: calcular_beta_con_tablas e beta_spec_def Let_def)
qed


lemma yahoo_ggal: "get_yahoo_symbol ''GGAL'' = ''GGAL.BA''"
  by (simp add: get_yahoo_symbol_def SIMBOLOS_MAPPING_def)

lemma filas_muestra_completas:
  "filter (\<lambda>row. \<not> fila_incompleta row) filas_activo = filas_activo"
  "filter (\<lambda>row. \<not> fila_incompleta row) filas_indice = filas_indice"
  "filas_activo \<noteq> []" "filas_indice \<noteq> []"
  by (simp_all add: filas_activo_def filas_indice_def fila_incompleta_def fila_completa_def)

lemma tablas_beta:
  "tabla_para_beta hist_rango_beta 0 ''GGAL'' None None =
     Some (map (cotizacion_de_fila ''GGAL'') filas_activo)"
  "tabla_para_beta hist_rango_beta 0 ''MERVAL'' None None =
     Some (map (cotizacion_de_fila ''MERVAL'') filas_indice)"
  by (simp_all add: tabla_para_beta_def obtener_dataframe_historico_def obtener_historico_def
      Let_def hist_rango_beta_def yahoo_ggal yahoo_merval convert_eq filas_muestra_completas)

lemma timestamps_muestra:
  "map timestamp (map (cotizacion_de_fila s) filas_activo) =
    [0, 86400, 172800, 259200, 345600, 432000, 518400, 604800, 691200, 777600, 864000,
     950400, 1036800, 1123200, 1209600, 1296000, 1382400, 1468800, 1555200, 1641600,
     1728000, 1814400, 1900800, 1987200, 2073600, 2160000, 2246400, 2332800, 2419200,
     2505600]"
  "map timestamp (map (cotizacion_de_fila s) filas_indice) =
    [0, 86400, 172800, 259200, 345600, 432000, 518400, 604800, 691200, 777600, 864000,
     950400, 1036800, 1123200, 1209600, 1296000, 1382400, 1468800, 1555200, 1641600,
     1728000, 1814400, 1900800, 1987200, 2073600, 2160000, 2246400, 2332800, 2419200,
     2505600]"
  by (simp_all add: filas_activo_def filas_indice_def cotizacion_de_fila_def fila_completa_def)

lemma filas_comunes_muestra:
  "filas_comunes (map (cotizacion_de_fila s) filas_activo)
     (map (cotizacion_de_fila s') filas_indice) = map (cotizacion_de_fila s) filas_activo"
  "filas_comunes (map (cotizacion_de_fila s') filas_indice)
     (map (cotizacion_de_fila s) filas_activo) = map (cotizacion_de_fila s') filas_indice"
proof -
  have "\<forall>c \<in> set (map (cotizacion_de_fila s) filas_activo).
      timestamp c \<in> set (map timestamp (map (cotizacion_de_fila s') filas_indice))"
    unfolding timestamps_muestra(2)
    using timestamps_muestra(1) [of s] by (metis image_eqI list.set_map)
  then show "filas_comunes (map (cotizacion_de_fila s) filas_activo)
     (map (cotizacion_de_fila s') filas_indice) = map (cotizacion_de_fila s) filas_activo"
    unfolding filas_comunes_def by (simp only: filter_id_conv)
  have "\<forall>c \<in> set (map (cotizacion_de_fila s') filas_indice).
      timestamp c \<in> set (map timestamp (map (cotizacion_de_fila s) filas_activo))"
    unfolding timestamps_muestra(1)
    using timestamps_muestra(2) [of s'] by (metis image_eqI list.set_map)
  then show "filas_comunes (map (cotizacion_de_fila s') filas_indice)
     (map (cotizacion_de_fila s) filas_activo) = map (cotizacion_de_fila s') filas_indice"
    unfolding filas_comunes_def by (simp only: filter_id_conv)
qed

lemma rendimientos_muestra_indice:
  "rendimientos_spec lib_exacta (map (cotizacion_de_fila s) filas_indice) =
    [(86400, Finito 1), (172800, Finito (- (1 / 2))), (259200, Finito 1),
     (345600, Finito (- (1 / 2))), (432000, Finito 1), (518400, Finito (- (1 / 2))),
     (604800, Finito 1), (691200, Finito (- (1 / 2))), (777600, Finito 1),
     (864000, Finito (- (1 / 2))), (950400, Finito 1), (1036800, Finito (- (1 / 2))),
     (1123200, Finito 1), (1209600, Finito (- (1 / 2))), (1296000, Finito 1),
     (1382400, Finito (- (1 / 2))), (1468800, Finito 1), (1555200, Finito (- (1 / 2))),
     (1641600, Finito 1), (1728000, Finito (- (1 / 2))), (1814400, Finito 1),
     (1900800, Finito (- (1 / 2))), (1987200, Finito 1), (2073600, Finito (- (1 / 2))),
     (2160000, Finito 1), (2246400, Finito (- (1 / 2))), (2332800, Finito 1),
     (2419200, Finito (- (1 / 2))), (2505600, Finito 1)]"
  by (simp add: filas_indice_def cotizacion_de_fila_def fila_completa_def redondear_def
      lib_exacta_def Let_def)

lemma rendimientos_muestra_activo:
  "rendimientos_spec lib_exacta (map (cotizacion_de_fila s) filas_activo) =
    [(86400, Finito (1 / 2)), (172800, Finito (- (1 / 4))), (259200, Finito (1 / 2)),
     (345600, Finito (- (1 / 4))), (432000, Finito (1 / 2)), (518400, Finito (- (1 / 4))),
     (604800, Finito (1 / 2)), (691200, Finito (- (1 / 4))), (777600, Finito (1 / 2)),
     (864000, Finito (- (1 / 4))), (950400, Finito (1 / 2)), (1036800, Finito (- (1 / 4))),
     (1123200, Finito (1 / 2)), (1209600, Finito (- (1 / 4))), (1296000, Finito (1 / 2)),
     (1382400, Finito (- (1 / 4))), (1468800, Finito (1 / 2)), (1555200, Finito (- (1 / 4))),
     (1641600, Finito (1 / 2)), (1728000, Finito (- (1 / 4))), (1814400, Finito (1 / 2)),
     (1900800, Finito (- (1 / 4))), (1987200, Finito (1 / 2)), (2073600, Finito (- (1 / 4))),
     (2160000, Finito (1 / 2)), (2246400, Finito (- (1 / 4))), (2332800, Finito (1 / 2)),
     (2419200, Finito (- (1 / 4))), (2505600, Finito (1 / 2))]"
  by (simp add: filas_activo_def cotizacion_de_fila_def fila_completa_def redondear_def
      lib_exacta_def Let_def)


lemma length_filas_muestra: "length filas_activo = 30" "length filas_indice = 30"
  by (simp_all add: filas_activo_def filas_indice_def)

lemma beta_spec_muestra:
  "beta_spec lib_exacta (map (cotizacion_de_fila ''GGAL'') filas_activo)
     (map (cotizacion_de_fila ''MERVAL'') filas_indice) = Some (Finito (1 / 2))"
  unfolding beta_spec_def filas_comunes_muestra rendimientos_muestra_indice
    rendimientos_muestra_activo Let_def
  by (simp add: var_def cov_def validos_def lib_exacta_def var_exacta_def cov_exacta_def
      suma_cuadrados_def suma_productos_def media_def redondear_def length_filas_muestra)


lemma beta_spec_muestra_inversa:
  "beta_spec lib_exacta (map (cotizacion_de_fila ''MERVAL'') filas_indice)
     (map (cotizacion_de_fila ''GGAL'') filas_activo) = Some (Finito 2)"
  unfolding beta_spec_def filas_comunes_muestra rendimientos_muestra_indice
    rendimientos_muestra_activo Let_def
  by (simp add: var_def cov_def validos_def lib_exacta_def var_exacta_def cov_exacta_def
      suma_cuadrados_def suma_productos_def media_def redondear_def length_filas_muestra)

lemma tablas_indice_corto:
  "tabla_para_beta hist_rango_indice_corto 0 ''GGAL'' None None =
     Some (map (cotizacion_de_fila ''GGAL'') filas_activo)"
  "tabla_para_beta hist_rango_indice_corto 0 ''MERVAL'' None None =
     Some [cotizacion_de_fila ''MERVAL'' (fila_completa 0 100),
           cotizacion_de_fila ''MERVAL'' (fila_completa 86400 200)]"
proof -
  show "tabla_para_beta hist_rango_indice_corto 0 ''GGAL'' None None =
     Some (map (cotizacion_de_fila ''GGAL'') filas_activo)"
    by (simp add: tabla_para_beta_def obtener_dataframe_historico_def obtener_historico_def
        Let_def hist_rango_indice_corto_def yahoo_ggal convert_eq filas_muestra_completas)
  have t: "take 2 filas_indice = [fila_completa 0 100, fila_completa 86400 200]"
    by (simp add: filas_indice_def)
  show "tabla_para_beta hist_rango_indice_corto 0 ''MERVAL'' None None =
     Some [cotizacion_de_fila ''MERVAL'' (fila_completa 0 100),
           cotizacion_de_fila ''MERVAL'' (fila_completa 86400 200)]"
    by (simp add: tabla_para_beta_def obtener_dataframe_historico_def obtener_historico_def
        Let_def hist_rango_indice_corto_def yahoo_merval convert_eq t fila_incompleta_def
        fila_completa_def)
qed

lemma fechas_indice_corto:
  "fechas_comunes_de (map (cotizacion_de_fila ''GGAL'') filas_activo)
     [cotizacion_de_fila ''MERVAL'' (fila_completa 0 100),
      cotizacion_de_fila ''MERVAL'' (fila_completa 86400 200)] = [0, 86400]"
  unfolding fechas_comunes_de_def timestamps_muestra
  by (simp add: intersection_def unico_def cotizacion_de_fila_def fila_completa_def)

lemma filas_plano:
  "map (\<lambda>r. fila_completa (indice r) 100) filas_indice \<noteq> []"
  "filter (\<lambda>row. \<not> fila_incompleta row) (map (\<lambda>r. fila_completa (indice r) 100) filas_indice) =
     map (\<lambda>r. fila_completa (indice r) 100) filas_indice"
  by (simp_all add: filas_indice_def fila_incompleta_def fila_completa_def)

lemma tablas_indice_plano:
  "tabla_para_beta hist_rango_indice_plano 0 ''GGAL'' None None =
     Some (map (cotizacion_de_fila ''GGAL'') filas_activo)"
  "tabla_para_beta hist_rango_indice_plano 0 ''MERVAL'' None None =
     Some (map (cotizacion_de_fila ''MERVAL'')
       (map (\<lambda>r. fila_completa (indice r) 100) filas_indice))"
  by (simp_all add: tabla_para_beta_def obtener_dataframe_historico_def obtener_historico_def
      Let_def hist_rango_indice_plano_def yahoo_ggal yahoo_merval convert_eq
      filas_muestra_completas filas_plano)

lemma timestamps_plano:
  "map timestamp (map (cotizacion_de_fila s)
     (map (\<lambda>r. fila_completa (indice r) 100) filas_indice)) =
   map timestamp (map (cotizacion_de_fila s) filas_indice)"
  by (simp add: cotizacion_de_fila_def fila_completa_def comp_def)

lemma tabla_beta_falla:
  "tabla_para_beta hist_rango_falla 0 ''GGAL'' None None = None"
  by (simp add: tabla_para_beta_def obtener_dataframe_historico_def obtener_historico_def
      Let_def hist_rango_falla_def respuesta_error_def)

lemma sorted_muestra:
  "sorted_wrt (<) (map timestamp (map (cotizacion_de_fila s) filas_activo))"
  "sorted_wrt (<) (map timestamp (map (cotizacion_de_fila s) filas_indice))"
  unfolding timestamps_muestra by simp_all

lemma rendimientos_muestra_plano:
  "map snd (rendimientos_spec lib_exacta (map (cotizacion_de_fila s)
     (map (\<lambda>r. fila_completa (indice r) 100) filas_indice))) = replicate 29 (Finito 0)"
  by (simp add: filas_indice_def cotizacion_de_fila_def fila_completa_def redondear_def
      lib_exacta_def Let_def numeral_eq_Suc)

lemma var_plano: "var lib_exacta (replicate 29 (Finito 0)) = Finito 0"
  by (simp add: var_def validos_def lib_exacta_def var_exacta_def suma_cuadrados_def
      suma_productos_def media_def numeral_eq_Suc)


theorem calcular_beta_spec_witness:
  "tabla_para_beta hist_rango_falla 0 ''GGAL'' None None = None \<and>
   calcular_beta lib_exacta hist_rango_falla 0 ''GGAL'' ''MERVAL'' None None = None \<and>
   tabla_para_beta hist_rango_indice_corto 0 ''GGAL'' None None =
     Some (map (cotizacion_de_fila ''GGAL'') filas_activo) \<and>
   tabla_para_beta hist_rango_indice_corto 0 ''MERVAL'' None None =
     Some [cotizacion_de_fila ''MERVAL'' (fila_completa 0 100),
           cotizacion_de_fila ''MERVAL'' (fila_completa 86400 200)] \<and>
   card (set (map timestamp (map (cotizacion_de_fila ''GGAL'') filas_activo)) \<inter>
         set (map timestamp [cotizacion_de_fila ''MERVAL'' (fila_completa 0 100),
                             cotizacion_de_fila ''MERVAL'' (fila_completa 86400 200)])) < 30 \<and>
   calcular_beta lib_exacta hist_rango_indice_corto 0 ''GGAL'' ''MERVAL'' None None = None \<and>
   tabla_para_beta hist_rango_beta 0 ''GGAL'' None None =
     Some (map (cotizacion_de_fila ''GGAL'') filas_activo) \<and>
   tabla_para_beta hist_rango_beta 0 ''MERVAL'' None None =
     Some (map (cotizacion_de_fila ''MERVAL'') filas_indice) \<and>
   30 \<le> card (set (map timestamp (map (cotizacion_de_fila ''GGAL'') filas_activo)) \<inter>
              set (map timestamp (map (cotizacion_de_fila ''MERVAL'') filas_indice))) \<and>
   sorted_wrt (<) (map timestamp (map (cotizacion_de_fila ''GGAL'') filas_activo)) \<and>
   sorted_wrt (<) (map timestamp (map (cotizacion_de_fila ''MERVAL'') filas_indice)) \<and>
   calcular_beta lib_exacta hist_rango_beta 0 ''GGAL'' ''MERVAL'' None None =
     Some (Finito (1 / 2)) \<and>
   calcular_beta lib_exacta hist_rango_beta 0 ''MERVAL'' ''GGAL'' None None =
     Some (Finito 2) \<and>
   var lib_exacta (map snd (rendimientos_spec lib_exacta
     (loc (map (cotizacion_de_fila ''MERVAL'')
            (map (\<lambda>r. fila_completa (indice r) 100) filas_indice))
        (fechas_comunes_de (map (cotizacion_de_fila ''GGAL'') filas_activo)
           (map (cotizacion_de_fila ''MERVAL'')
              (map (\<lambda>r. fila_completa (indice r) 100) filas_indice)))))) = Finito 0 \<and>
   calcular_beta lib_exacta hist_rango_indice_plano 0 ''GGAL'' ''MERVAL'' None None = None"
proof -
  let ?A = "map (cotizacion_de_fila ''GGAL'') filas_activo"
  let ?I = "map (cotizacion_de_fila ''MERVAL'') filas_indice"
  let ?C = "[cotizacion_de_fila ''MERVAL'' (fila_completa 0 100),
             cotizacion_de_fila ''MERVAL'' (fila_completa 86400 200)]"
  let ?P = "map (cotizacion_de_fila ''MERVAL'')
              (map (\<lambda>r. fila_completa (indice r) 100) filas_indice)"
  have falla: "calcular_beta lib_exacta hist_rango_falla 0 ''GGAL'' ''MERVAL'' None None = None"
    by (rule calcular_beta_spec [of hist_rango_falla 0 "''GGAL''" None None "''MERVAL''"
          lib_exacta, THEN conjunct1, THEN mp, OF disjI1, OF tabla_beta_falla])
  note corto = calcular_beta_spec [of hist_rango_indice_corto 0 "''GGAL''" None None
      "''MERVAL''" lib_exacta ?A ?C, THEN conjunct2, THEN mp, OF conjI,
      OF tablas_indice_corto(1) tablas_indice_corto(2)]
  have c2: "card (set (map timestamp ?A) \<inter> set (map timestamp ?C)) < 30"
    unfolding corto [THEN conjunct1, symmetric] fechas_indice_corto by simp
  have c3: "calcular_beta lib_exacta hist_rango_indice_corto 0 ''GGAL'' ''MERVAL'' None None =
      None"
    by (rule corto [THEN conjunct2, THEN conjunct2, THEN conjunct2, THEN conjunct1, THEN mp,
          OF c2])
  note directa = calcular_beta_spec [of hist_rango_beta 0 "''GGAL''" None None "''MERVAL''"
      lib_exacta ?A ?I, THEN conjunct2, THEN mp, OF conjI, OF tablas_beta(1) tablas_beta(2)]
  note directa_ordenada = directa [THEN conjunct2, THEN conjunct2, THEN conjunct2,
      THEN conjunct2, THEN conjunct2, THEN mp, OF conjI, OF sorted_muestra(1) sorted_muestra(2)]
  have d1: "calcular_beta lib_exacta hist_rango_beta 0 ''GGAL'' ''MERVAL'' None None =
      Some (Finito (1 / 2))"
    unfolding directa_ordenada [THEN conjunct2, THEN conjunct2] by (rule beta_spec_muestra)
  have l30: "length (fechas_comunes_de ?A ?I) = 30"
    unfolding fechas_comunes_de_def timestamps_muestra
    by (simp add: intersection_def unico_def)
  have d2: "30 \<le> card (set (map timestamp ?A) \<inter> set (map timestamp ?I))"
    unfolding directa [THEN conjunct1, symmetric] l30 by simp
  note inversa = calcular_beta_spec [of hist_rango_beta 0 "''MERVAL''" None None "''GGAL''"
      lib_exacta ?I ?A, THEN conjunct2, THEN mp, OF conjI, OF tablas_beta(2) tablas_beta(1)]
  note inversa_ordenada = inversa [THEN conjunct2, THEN conjunct2, THEN conjunct2,
      THEN conjunct2, THEN conjunct2, THEN mp, OF conjI, OF sorted_muestra(2) sorted_muestra(1)]
  have d3: "calcular_beta lib_exacta hist_rango_beta 0 ''MERVAL'' ''GGAL'' None None =
      Some (Finito 2)"
    unfolding inversa_ordenada [THEN conjunct2, THEN conjunct2]
    by (rule beta_spec_muestra_inversa)
  note plano = calcular_beta_spec [of hist_rango_indice_plano 0 "''GGAL''" None None
      "''MERVAL''" lib_exacta ?A ?P, THEN conjunct2, THEN mp, OF conjI,
      OF tablas_indice_plano(1) tablas_indice_plano(2)]
  have sp: "sorted_wrt (<) (map timestamp ?P)"
    unfolding timestamps_plano by (rule sorted_muestra(2))
  note plano_ordenada = plano [THEN conjunct2, THEN conjunct2, THEN conjunct2,
      THEN conjunct2, THEN conjunct2, THEN mp, OF conjI, OF sorted_muestra(1) sp]
  have tp: "map timestamp ?P = map timestamp ?A"
    unfolding timestamps_plano timestamps_muestra ..
  have "\<forall>c \<in> set ?P. timestamp c \<in> set (map timestamp ?A)"
    unfolding tp [symmetric] by simp
  then have fp: "filas_comunes ?P ?A = ?P"
    unfolding filas_comunes_def by (simp only: filter_id_conv)
  have p1: "var lib_exacta (map snd (rendimientos_spec lib_exacta
      (loc ?P (fechas_comunes_de ?A ?P)))) = Finito 0"
    unfolding plano_ordenada [THEN conjunct2, THEN conjunct1] fp rendimientos_muestra_plano
    by (rule var_plano)
  have lp30: "length (fechas_comunes_de ?A ?P) = 30"
    unfolding fechas_comunes_de_def timestamps_plano timestamps_muestra
    by (simp add: intersection_def unico_def)
  have p0: "30 \<le> card (set (map timestamp ?A) \<inter> set (map timestamp ?P))"
    unfolding plano [THEN conjunct1, symmetric] lp30 by simp
  have p2: "calcular_beta lib_exacta hist_rango_indice_plano 0 ''GGAL'' ''MERVAL'' None
      None = None"
    unfolding plano [THEN conjunct2, THEN conjunct2, THEN conjunct2, THEN conjunct2,
        THEN conjunct1, THEN mp, OF p0]
    by (simp only: p1 simp_thms if_True)
  show ?thesis
    by (intro conjI tabla_beta_falla falla tablas_indice_corto c2 c3 tablas_beta d2
        sorted_muestra d1 d3 p1 p2)
qed

section \<open>Properties of the correlation matrix\<close>

























lemma posicion_map_of:
  "posicion a (map fst cols) = Some i \<Longrightarrow> map_of cols a = Some (snd (cols ! i))"
proof (induction cols arbitrary: i)
  case Nil
  then show ?case by simp
next
  case (Cons c cols)
  then show ?case by (cases c) (auto split: if_splits)
qed









lemma tabla_dos_barras:
  "tabla_para_matriz hist_rango_dos_barras 0 ''GGAL'' 0 None = Some [barra 0 100, barra 1 110]"
  by (simp add: tabla_para_matriz_def obtener_dataframe_historico_def obtener_historico_def
      Let_def hist_rango_dos_barras_def convert_yf_history_to_cotizaciones_def
      fila_incompleta_def fila_completa_def barra_def)

lemma datos_dos_barras:
  "datos_combinados hist_rango_dos_barras 0 [''GGAL''] 0 None =
     Inr \<lparr> tb_index = [0, 86400], tb_cols = [(''GGAL'', [Finito 100, Finito 110])] \<rparr>"
  by (simp add: datos_combinados_def tabla_dos_barras tabla_vacia_def asignar_columna_def
      serie_cierre_def barra_def cotizacion_de_fila_def fila_completa_def)

lemma rendimientos_dos_barras:
  "rendimientos_combinados lib_exacta hist_rango_dos_barras 0 [''GGAL''] 0 None =
     Inr \<lparr> tb_index = [86400], tb_cols = [(''GGAL'', [Finito (1 / 10)])] \<rparr>"
  by (simp add: rendimientos_combinados_def datos_dos_barras pct_change_tabla_def
      pct_change_def dropna_tabla_def filas_completas_def Let_def upt_rec redondear_def
      lib_exacta_def)











end
